theory Spec2Isabelle
  imports Main
begin

section \<open>The relational store (database/setup.js)\<close>

text \<open>
  The store is the in-memory SQLite database that \<open>initializeDatabase\<close> creates: five
  entity tables and three association tables. Every table has an
  \<open>INTEGER PRIMARY KEY AUTOINCREMENT\<close> column, so each table carries the largest row id
  it has ever handed out (SQLite's \<open>sqlite_sequence\<close>), and a new row gets that number
  plus one. A table is the list of its rows in the order of their row ids. A \<open>SELECT\<close>
  without \<open>ORDER BY\<close> returns rows in the order of the b-tree that SQLite scans for it:
  the table itself, or an index that holds every column the query reads (see the seed).
  The timestamp columns (\<open>created_at\<close>, \<open>updated_at\<close>) are left out: no operation
  modelled here reads them.
  Identifiers are natural numbers; text columns are strings compared byte by byte, as
  SQLite's default \<open>BINARY\<close> collation does.
\<close>

record user_row =
  u_id :: nat
  username :: string
  email :: string
  password_hash :: string

record group_row =
  g_id :: nat
  g_name :: string
  g_description :: "string option"

record role_row =
  r_id :: nat
  r_name :: string
  r_description :: "string option"

record module_row =
  m_id :: nat
  m_name :: string
  m_description :: "string option"

record permission_row =
  p_id :: nat
  action :: string
  module_id :: nat

record user_group_row =
  ug_id :: nat
  ug_user_id :: nat
  ug_group_id :: nat

record group_role_row =
  gr_id :: nat
  gr_group_id :: nat
  gr_role_id :: nat

record role_permission_row =
  rp_id :: nat
  rp_role_id :: nat
  rp_permission_id :: nat

text \<open>
  \<open>foreign_keys\<close> is the connection's \<open>PRAGMA foreign_keys\<close> setting. SQLite parses the
  \<open>FOREIGN KEY ... ON DELETE CASCADE\<close> clauses of the schema in every case, but it
  enforces them (and runs their cascade actions) only on a connection where the pragma
  has been switched on; a new connection starts with it off.
\<close>

record database =
  foreign_keys :: bool
  users :: "user_row list"
  users_seq :: nat
  groups :: "group_row list"
  groups_seq :: nat
  roles :: "role_row list"
  roles_seq :: nat
  modules :: "module_row list"
  modules_seq :: nat
  permissions :: "permission_row list"
  permissions_seq :: nat
  user_groups :: "user_group_row list"
  user_groups_seq :: nat
  group_roles :: "group_role_row list"
  group_roles_seq :: nat
  role_permissions :: "role_permission_row list"
  role_permissions_seq :: nat

text \<open>
  \<open>new sqlite3.Database(':memory:')\<close> followed by the eight \<open>CREATE TABLE\<close> statements
  of \<open>initializeDatabase\<close>. The source issues no \<open>PRAGMA\<close>, so \<open>foreign_keys\<close> keeps
  SQLite's default.
\<close>

definition new_database :: database where
  "new_database =
     \<lparr>foreign_keys = False,
      users = [], users_seq = 0,
      groups = [], groups_seq = 0,
      roles = [], roles_seq = 0,
      modules = [], modules_seq = 0,
      permissions = [], permissions_seq = 0,
      user_groups = [], user_groups_seq = 0,
      group_roles = [], group_roles_seq = 0,
      role_permissions = [], role_permissions_seq = 0\<rparr>"

subsection \<open>INSERT statements\<close>

text \<open>
  Each \<open>INSERT\<close> returns \<open>Some lastID\<close>, or \<open>None\<close> when SQLite reports an error (the
  callback's \<open>err\<close>): a \<open>UNIQUE\<close> constraint of the schema is violated, or, on a
  connection that enforces foreign keys, a referenced row is missing. A failed statement
  changes nothing.
\<close>

definition insert_user :: "string \<Rightarrow> string \<Rightarrow> string \<Rightarrow> database \<Rightarrow> nat option \<times> database" where
  "insert_user un em ph db =
     (if \<exists>u \<in> set (users db). username u = un \<or> email u = em then (None, db)
      else let i = Suc (users_seq db)
           in (Some i, db\<lparr>users := users db @ [\<lparr>u_id = i, username = un, email = em, password_hash = ph\<rparr>],
                          users_seq := i\<rparr>))"

definition insert_group :: "string \<Rightarrow> string option \<Rightarrow> database \<Rightarrow> nat option \<times> database" where
  "insert_group n d db =
     (if \<exists>g \<in> set (groups db). g_name g = n then (None, db)
      else let i = Suc (groups_seq db)
           in (Some i, db\<lparr>groups := groups db @ [\<lparr>g_id = i, g_name = n, g_description = d\<rparr>],
                          groups_seq := i\<rparr>))"

definition insert_role :: "string \<Rightarrow> string option \<Rightarrow> database \<Rightarrow> nat option \<times> database" where
  "insert_role n d db =
     (if \<exists>r \<in> set (roles db). r_name r = n then (None, db)
      else let i = Suc (roles_seq db)
           in (Some i, db\<lparr>roles := roles db @ [\<lparr>r_id = i, r_name = n, r_description = d\<rparr>],
                          roles_seq := i\<rparr>))"

definition insert_module :: "string \<Rightarrow> string option \<Rightarrow> database \<Rightarrow> nat option \<times> database" where
  "insert_module n d db =
     (if \<exists>m \<in> set (modules db). m_name m = n then (None, db)
      else let i = Suc (modules_seq db)
           in (Some i, db\<lparr>modules := modules db @ [\<lparr>m_id = i, m_name = n, m_description = d\<rparr>],
                          modules_seq := i\<rparr>))"

definition insert_permission :: "string \<Rightarrow> nat \<Rightarrow> database \<Rightarrow> nat option \<times> database" where
  "insert_permission a mid db =
     (if (\<exists>p \<in> set (permissions db). action p = a \<and> module_id p = mid)
         \<or> (foreign_keys db \<and> mid \<notin> set (map m_id (modules db)))
      then (None, db)
      else let i = Suc (permissions_seq db)
           in (Some i, db\<lparr>permissions := permissions db @ [\<lparr>p_id = i, action = a, module_id = mid\<rparr>],
                          permissions_seq := i\<rparr>))"

definition insert_user_group :: "nat \<Rightarrow> nat \<Rightarrow> database \<Rightarrow> nat option \<times> database" where
  "insert_user_group uid gid db =
     (if (\<exists>ug \<in> set (user_groups db). ug_user_id ug = uid \<and> ug_group_id ug = gid)
         \<or> (foreign_keys db \<and> (uid \<notin> set (map u_id (users db)) \<or> gid \<notin> set (map g_id (groups db))))
      then (None, db)
      else let i = Suc (user_groups_seq db)
           in (Some i, db\<lparr>user_groups := user_groups db @ [\<lparr>ug_id = i, ug_user_id = uid, ug_group_id = gid\<rparr>],
                          user_groups_seq := i\<rparr>))"

definition insert_group_role :: "nat \<Rightarrow> nat \<Rightarrow> database \<Rightarrow> nat option \<times> database" where
  "insert_group_role gid rid db =
     (if (\<exists>gr \<in> set (group_roles db). gr_group_id gr = gid \<and> gr_role_id gr = rid)
         \<or> (foreign_keys db \<and> (gid \<notin> set (map g_id (groups db)) \<or> rid \<notin> set (map r_id (roles db))))
      then (None, db)
      else let i = Suc (group_roles_seq db)
           in (Some i, db\<lparr>group_roles := group_roles db @ [\<lparr>gr_id = i, gr_group_id = gid, gr_role_id = rid\<rparr>],
                          group_roles_seq := i\<rparr>))"

definition insert_role_permission :: "nat \<Rightarrow> nat \<Rightarrow> database \<Rightarrow> nat option \<times> database" where
  "insert_role_permission rid pid db =
     (if (\<exists>rp \<in> set (role_permissions db). rp_role_id rp = rid \<and> rp_permission_id rp = pid)
         \<or> (foreign_keys db \<and> (rid \<notin> set (map r_id (roles db)) \<or> pid \<notin> set (map p_id (permissions db))))
      then (None, db)
      else let i = Suc (role_permissions_seq db)
           in (Some i, db\<lparr>role_permissions := role_permissions db @ [\<lparr>rp_id = i, rp_role_id = rid, rp_permission_id = pid\<rparr>],
                          role_permissions_seq := i\<rparr>))"

subsection \<open>The seed (seedDatabase)\<close>

text \<open>
  The canonical actions, the array \<open>actions\<close> of \<open>seedDatabase\<close> and of \<open>POST /modules\<close>.
\<close>

definition actions :: "string list" where
  "actions = [''create'', ''read'', ''update'', ''delete'']"

definition seed_modules :: "(string \<times> string) list" where
  "seed_modules =
     [(''Users'', ''User management module''),
      (''Groups'', ''Group management module''),
      (''Roles'', ''Role management module''),
      (''Modules'', ''Module management''),
      (''Permissions'', ''Permission management'')]"

datatype seed_outcome = Resolved | Rejected

text \<open>
  Text is ordered byte by byte (\<open>memcmp\<close>, then the shorter string first), in an index
  as in \<open>ORDER BY\<close>.
\<close>

fun str_less :: "string \<Rightarrow> string \<Rightarrow> bool" where
  "str_less [] [] = False"
| "str_less [] (y # ys) = True"
| "str_less (x # xs) [] = False"
| "str_less (x # xs) (y # ys) =
     ((of_char x :: nat) < of_char y \<or> (x = y \<and> str_less xs ys))"

text \<open>
  The seed reads two tables back without \<open>ORDER BY\<close>. \<open>SELECT id FROM modules\<close> reads
  only the id, which the index of \<open>UNIQUE(name)\<close> (\<open>sqlite_autoindex_modules_1\<close>) holds
  next to each name; SQLite scans that index rather than the wider table, so the ids come
  in the order of the names (and, for equal keys, of the row ids). For
  \<open>SELECT id FROM permissions\<close> SQLite scans the table, so the ids come in row id order.
\<close>

fun insert_by_name :: "module_row \<Rightarrow> module_row list \<Rightarrow> module_row list" where
  "insert_by_name r [] = [r]"
| "insert_by_name r (s # ss) =
     (if str_less (m_name s) (m_name r) then s # insert_by_name r ss else r # s # ss)"

definition select_id_from_modules :: "database \<Rightarrow> nat list" where
  "select_id_from_modules db = map m_id (foldr insert_by_name (modules db) [])"

definition select_id_from_permissions :: "database \<Rightarrow> nat list" where
  "select_id_from_permissions db = map p_id (permissions db)"

text \<open>
  \<open>seedDatabase\<close> is a chain of nested callbacks; each step below is one of them, in the
  source's order. The prepared statements that insert the modules, the permissions and
  the role's permissions are run without an error callback, so a failing row is skipped;
  the single inserts reject the promise on an error. \<open>adminPassword\<close> is the result of
  \<open>bcrypt.hash('admin123', 10)\<close>, which this model takes as given.
\<close>

definition seedDatabase :: "string \<Rightarrow> database \<Rightarrow> seed_outcome \<times> database" where
  "seedDatabase adminPassword db0 =
     (let db1 = fold (\<lambda>(n, d) db. snd (insert_module n (Some d) db)) seed_modules db0;
          moduleRows = select_id_from_modules db1;
          db2 = fold (\<lambda>mid db. fold (\<lambda>a db'. snd (insert_permission a mid db')) actions db) moduleRows db1
      in case insert_role ''Admin'' (Some ''Full system administrator'') db2 of
           (None, db3) \<Rightarrow> (Rejected, db3)
         | (Some adminRoleId, db3) \<Rightarrow>
             (let permRows = select_id_from_permissions db3;
                  db4 = fold (\<lambda>pid db. snd (insert_role_permission adminRoleId pid db)) permRows db3
              in (case insert_group ''Administrators'' (Some ''System administrators group'') db4 of
                    (None, db5) \<Rightarrow> (Rejected, db5)
                  | (Some adminGroupId, db5) \<Rightarrow>
                      (case insert_group_role adminGroupId adminRoleId db5 of
                         (None, db6) \<Rightarrow> (Rejected, db6)
                       | (Some _, db6) \<Rightarrow>
                           (case insert_user ''admin'' ''joydaven@gmail.com'' adminPassword db6 of
                              (None, db7) \<Rightarrow> (Rejected, db7)
                            | (Some adminUserId, db7) \<Rightarrow>
                                (case insert_user_group adminUserId adminGroupId db7 of
                                   (None, db8) \<Rightarrow> (Rejected, db8)
                                 | (Some _, db8) \<Rightarrow> (Resolved, db8)))))))"

definition initializeDatabase :: "string \<Rightarrow> seed_outcome \<times> database" where
  "initializeDatabase adminPassword = seedDatabase adminPassword new_database"

subsection \<open>DELETE statements\<close>

text \<open>
  \<open>DELETE FROM t WHERE id = ?\<close> removes the row. The schema declares every foreign key
  \<open>ON DELETE CASCADE\<close>: \<open>permissions.module_id\<close>, both columns of \<open>user_groups\<close>, of
  \<open>group_roles\<close> and of \<open>role_permissions\<close>. The child rows follow the parent only when
  the connection enforces foreign keys.
\<close>

definition delete_user_row :: "nat \<Rightarrow> database \<Rightarrow> database" where
  "delete_user_row userId db =
     (let db' = db\<lparr>users := filter (\<lambda>u. u_id u \<noteq> userId) (users db)\<rparr>
      in if foreign_keys db
         then db'\<lparr>user_groups := filter (\<lambda>ug. ug_user_id ug \<noteq> userId) (user_groups db')\<rparr>
         else db')"

definition delete_group_row :: "nat \<Rightarrow> database \<Rightarrow> database" where
  "delete_group_row groupId db =
     (let db' = db\<lparr>groups := filter (\<lambda>g. g_id g \<noteq> groupId) (groups db)\<rparr>
      in if foreign_keys db
         then db'\<lparr>user_groups := filter (\<lambda>ug. ug_group_id ug \<noteq> groupId) (user_groups db'),
                  group_roles := filter (\<lambda>gr. gr_group_id gr \<noteq> groupId) (group_roles db')\<rparr>
         else db')"

definition delete_role_row :: "nat \<Rightarrow> database \<Rightarrow> database" where
  "delete_role_row roleId db =
     (let db' = db\<lparr>roles := filter (\<lambda>r. r_id r \<noteq> roleId) (roles db)\<rparr>
      in if foreign_keys db
         then db'\<lparr>group_roles := filter (\<lambda>gr. gr_role_id gr \<noteq> roleId) (group_roles db'),
                  role_permissions := filter (\<lambda>rp. rp_role_id rp \<noteq> roleId) (role_permissions db')\<rparr>
         else db')"

definition delete_permission_rows :: "(permission_row \<Rightarrow> bool) \<Rightarrow> database \<Rightarrow> database" where
  "delete_permission_rows P db =
     (let gone = map p_id (filter P (permissions db));
          db' = db\<lparr>permissions := filter (\<lambda>p. \<not> P p) (permissions db)\<rparr>
      in if foreign_keys db
         then db'\<lparr>role_permissions := filter (\<lambda>rp. rp_permission_id rp \<notin> set gone) (role_permissions db')\<rparr>
         else db')"

definition delete_module_row :: "nat \<Rightarrow> database \<Rightarrow> database" where
  "delete_module_row moduleId db =
     (let db' = db\<lparr>modules := filter (\<lambda>m. m_id m \<noteq> moduleId) (modules db)\<rparr>
      in if foreign_keys db
         then delete_permission_rows (\<lambda>p. module_id p = moduleId) db'
         else db')"

section \<open>The permission resolver (middleware/auth.js, routes/auth.js)\<close>

text \<open>
  What a handler sends back: the status code is kept for the errors, whose body is
  \<open>{ error: text }\<close>; of a success body only the fields that depend on the store are
  kept. \<open>No_response\<close> is a request whose handler returns without ever calling \<open>res\<close>.
\<close>

datatype response =
    Message string
  | Created nat string
  | Removed string nat
  | Simulation nat string string bool string
  | Error nat string
  | No_response

type_synonym handler = "database \<Rightarrow> response \<times> database"

text \<open>
  The join that \<open>checkPermission\<close> and \<open>POST /simulate-action\<close> both send to SQLite,
  with the same text:
  \<^verbatim>\<open>
  SELECT COUNT(*) as count
  FROM user_groups ug
  JOIN group_roles gr ON ug.group_id = gr.group_id
  JOIN role_permissions rp ON gr.role_id = rp.role_id
  JOIN permissions p ON rp.permission_id = p.id
  JOIN modules m ON p.module_id = m.id
  WHERE ug.user_id = ? AND m.name = ? AND p.action = ?
  \<close>
\<close>

definition permission_count :: "database \<Rightarrow> nat \<Rightarrow> string \<Rightarrow> string \<Rightarrow> nat" where
  "permission_count db userId module a =
     length [(ug, gr, rp, p, m).
               ug \<leftarrow> user_groups db,
               gr \<leftarrow> group_roles db, ug_group_id ug = gr_group_id gr,
               rp \<leftarrow> role_permissions db, gr_role_id gr = rp_role_id rp,
               p \<leftarrow> permissions db, rp_permission_id rp = p_id p,
               m \<leftarrow> modules db, module_id p = m_id m,
               ug_user_id ug = userId \<and> m_name m = module \<and> action p = a]"

text \<open>
  \<open>checkPermission(module, action)\<close> is a middleware: \<open>userId\<close> is \<open>req.user.id\<close> of
  the verified token and \<open>next\<close> is the rest of the route.
\<close>

definition checkPermission :: "string \<Rightarrow> string \<Rightarrow> nat \<Rightarrow> handler \<Rightarrow> handler" where
  "checkPermission module a userId next db =
     (if permission_count db userId module a = 0
      then (Error 403 (''Permission denied: '' @ a @ '' on '' @ module), db)
      else next db)"

definition simulate_action :: "nat \<Rightarrow> string \<Rightarrow> string \<Rightarrow> handler" where
  "simulate_action userId module a db =
     (let hasPermission = (permission_count db userId module a > 0)
      in (Simulation userId module a hasPermission
            (if hasPermission then ''User can '' @ a @ '' on '' @ module
             else ''User cannot '' @ a @ '' on '' @ module),
          db))"

text \<open>
  The claim's own words: a path from the user through \<open>user_groups\<close>, \<open>group_roles\<close>,
  \<open>role_permissions\<close> and \<open>permissions\<close> to a module of the given name.
\<close>

definition has_path :: "database \<Rightarrow> nat \<Rightarrow> string \<Rightarrow> string \<Rightarrow> bool" where
  "has_path db U M A \<longleftrightarrow>
     (\<exists>ug \<in> set (user_groups db). \<exists>gr \<in> set (group_roles db).
      \<exists>rp \<in> set (role_permissions db). \<exists>p \<in> set (permissions db). \<exists>m \<in> set (modules db).
        ug_user_id ug = U \<and> ug_group_id ug = gr_group_id gr \<and> gr_role_id gr = rp_role_id rp \<and>
        rp_permission_id rp = p_id p \<and> module_id p = m_id m \<and> action p = A \<and> m_name m = M)"

subsection \<open>getUserPermissions\<close>

text \<open>\<open>ORDER BY m.name, p.action\<close>, with the text order \<open>str_less\<close>.\<close>

definition row_le :: "string \<times> string \<Rightarrow> string \<times> string \<Rightarrow> bool" where
  "row_le r s = (str_less (fst r) (fst s) \<or> (fst r = fst s \<and> (str_less (snd r) (snd s) \<or> snd r = snd s)))"

fun insert_row :: "string \<times> string \<Rightarrow> (string \<times> string) list \<Rightarrow> (string \<times> string) list" where
  "insert_row r [] = [r]"
| "insert_row r (s # ss) = (if row_le r s then r # s # ss else s # insert_row r ss)"

definition order_rows :: "(string \<times> string) list \<Rightarrow> (string \<times> string) list" where
  "order_rows rs = foldr insert_row rs []"

text \<open>
  \<^verbatim>\<open>
  SELECT DISTINCT m.name as module, p.action
  FROM user_groups ug
  JOIN group_roles gr ON ug.group_id = gr.group_id
  JOIN role_permissions rp ON gr.role_id = rp.role_id
  JOIN permissions p ON rp.permission_id = p.id
  JOIN modules m ON p.module_id = m.id
  WHERE ug.user_id = ?
  ORDER BY m.name, p.action
  \<close>
\<close>

definition user_permission_rows :: "database \<Rightarrow> nat \<Rightarrow> (string \<times> string) list" where
  "user_permission_rows db userId =
     order_rows (remdups
       [(m_name m, action p).
          ug \<leftarrow> user_groups db,
          gr \<leftarrow> group_roles db, ug_group_id ug = gr_group_id gr,
          rp \<leftarrow> role_permissions db, gr_role_id gr = rp_role_id rp,
          p \<leftarrow> permissions db, rp_permission_id rp = p_id p,
          m \<leftarrow> modules db, module_id p = m_id m,
          ug_user_id ug = userId])"

text \<open>
  The rows are grouped into \<open>const permissions = {}\<close>, an ordinary object. Reading
  \<open>permissions[row.module]\<close> finds an own property if the loop has stored one, and
  otherwise walks the prototype chain: for the property names of \<open>Object.prototype\<close>
  it finds the inherited member, which is truthy, so no array is stored, and
  \<open>permissions[row.module].push\<close> is \<open>undefined\<close>: calling it throws a \<open>TypeError\<close> and
  the callback is never invoked.
\<close>

definition object_prototype_keys :: "string list" where
  "object_prototype_keys =
     [''constructor'', ''__defineGetter__'', ''__defineSetter__'', ''hasOwnProperty'',
      ''__lookupGetter__'', ''__lookupSetter__'', ''isPrototypeOf'', ''propertyIsEnumerable'',
      ''toString'', ''valueOf'', ''__proto__'', ''toLocaleString'']"

datatype js_error = TypeError

fun group_by_module ::
  "(string \<times> string) list \<Rightarrow> (string \<rightharpoonup> string list) \<Rightarrow> js_error + (string \<rightharpoonup> string list)" where
  "group_by_module [] obj = Inr obj"
| "group_by_module ((module, a) # rows) obj =
     (case obj module of
        Some acts \<Rightarrow> group_by_module rows (obj(module \<mapsto> acts @ [a]))
      | None \<Rightarrow>
          if module \<in> set object_prototype_keys then Inl TypeError
          else group_by_module rows (obj(module \<mapsto> [a])))"

definition getUserPermissions :: "database \<Rightarrow> nat \<Rightarrow> js_error + (string \<rightharpoonup> string list)" where
  "getUserPermissions db userId = group_by_module (user_permission_rows db userId) Map.empty"

section \<open>Route handlers (routes/*.js)\<close>

text \<open>
  Each definition below is the handler of one route, the function \<open>(req, res) => ...\<close>
  that runs after the route's middleware; its name is the route's method and path.
  \<open>validateId\<close> and the Joi schemas of \<open>validate\<close> are the middleware in front of it.
\<close>

text \<open>
  \<open>validateId\<close>: the argument is \<open>parseInt(req.params.id)\<close>, \<open>None\<close> for \<open>NaN\<close>.
\<close>

definition validateId :: "int option \<Rightarrow> (nat \<Rightarrow> handler) \<Rightarrow> handler" where
  "validateId param next db =
     (case param of
        None \<Rightarrow> (Error 400 ''Invalid ID parameter'', db)
      | Some i \<Rightarrow> if i \<le> 0 then (Error 400 ''Invalid ID parameter'', db) else next (nat i) db)"

text \<open>
  The schemas \<open>assignUsers\<close>, \<open>assignRoles\<close> and \<open>assignPermissions\<close>:
  \<open>Joi.array().items(Joi.number().integer().positive()).min(1).required()\<close>.
  Nothing in them asks for distinct items.
\<close>

definition valid_id_list :: "nat list \<Rightarrow> bool" where
  "valid_id_list ids \<longleftrightarrow> ids \<noteq> [] \<and> (\<forall>i \<in> set ids. 0 < i)"

text \<open>\<open>description || null\<close>: an absent or empty description is stored as \<open>NULL\<close>.\<close>

definition or_null :: "string option \<Rightarrow> string option" where
  "or_null description = (case description of None \<Rightarrow> None | Some d \<Rightarrow> if d = [] then None else Some d)"

subsection \<open>Creating entities\<close>

text \<open>
  \<open>POST /users\<close> and \<open>POST /register\<close>. \<open>passwordHash\<close> is what
  \<open>await bcrypt.hash(password, saltRounds)\<close> yields: \<open>None\<close> when the promise rejects
  (the \<open>user\<close> schema lets the password be absent), and then the callback ends without
  a response.
\<close>

definition post_users :: "string \<Rightarrow> string \<Rightarrow> string option \<Rightarrow> handler" where
  "post_users un em passwordHash db =
     (if \<exists>u \<in> set (users db). username u = un \<or> email u = em
      then (Error 400 ''Username or email already exists'', db)
      else case passwordHash of
             None \<Rightarrow> (No_response, db)
           | Some ph \<Rightarrow>
               (case insert_user un em ph db of
                  (None, db') \<Rightarrow> (Error 500 ''Failed to create user'', db')
                | (Some lastID, db') \<Rightarrow> (Created lastID ''User created successfully'', db')))"

definition post_register :: "string \<Rightarrow> string \<Rightarrow> string \<Rightarrow> handler" where
  "post_register un em passwordHash db =
     (if \<exists>u \<in> set (users db). username u = un \<or> email u = em
      then (Error 400 ''Username or email already exists'', db)
      else case insert_user un em passwordHash db of
             (None, db') \<Rightarrow> (Error 500 ''Failed to create user'', db')
           | (Some lastID, db') \<Rightarrow> (Created lastID ''User created successfully'', db'))"

definition post_groups :: "string \<Rightarrow> string option \<Rightarrow> handler" where
  "post_groups name description db =
     (if \<exists>g \<in> set (groups db). g_name g = name
      then (Error 400 ''Group name already exists'', db)
      else case insert_group name (or_null description) db of
             (None, db') \<Rightarrow> (Error 500 ''Failed to create group'', db')
           | (Some lastID, db') \<Rightarrow> (Created lastID ''Group created successfully'', db'))"

definition post_roles :: "string \<Rightarrow> string option \<Rightarrow> handler" where
  "post_roles name description db =
     (if \<exists>r \<in> set (roles db). r_name r = name
      then (Error 400 ''Role name already exists'', db)
      else case insert_role name (or_null description) db of
             (None, db') \<Rightarrow> (Error 500 ''Failed to create role'', db')
           | (Some lastID, db') \<Rightarrow> (Created lastID ''Role created successfully'', db'))"

text \<open>
  \<open>POST /modules\<close> runs one prepared \<open>INSERT INTO permissions\<close> per canonical action;
  the callback of \<open>stmt.run\<close> ignores its \<open>err\<close>.
\<close>

definition post_modules :: "string \<Rightarrow> string option \<Rightarrow> handler" where
  "post_modules name description db =
     (if \<exists>m \<in> set (modules db). m_name m = name
      then (Error 400 ''Module name already exists'', db)
      else case insert_module name (or_null description) db of
             (None, db') \<Rightarrow> (Error 500 ''Failed to create module'', db')
           | (Some moduleId, db') \<Rightarrow>
               (Created moduleId ''Module created successfully with default permissions'',
                fold (\<lambda>a d. snd (insert_permission a moduleId d)) actions db'))"

definition post_permissions :: "string \<Rightarrow> nat \<Rightarrow> handler" where
  "post_permissions a mid db =
     (if mid \<notin> set (map m_id (modules db)) then (Error 400 ''Module not found'', db)
      else if \<exists>p \<in> set (permissions db). action p = a \<and> module_id p = mid
      then (Error 400 ''Permission already exists for this module and action'', db)
      else case insert_permission a mid db of
             (None, db') \<Rightarrow> (Error 500 ''Failed to create permission'', db')
           | (Some lastID, db') \<Rightarrow> (Created lastID ''Permission created successfully'', db'))"

subsection \<open>Deleting entities\<close>

text \<open>\<open>caller\<close> is \<open>req.user.id\<close>.\<close>

definition delete_users_id :: "nat \<Rightarrow> nat \<Rightarrow> handler" where
  "delete_users_id caller userId db =
     (if userId \<notin> set (map u_id (users db)) then (Error 404 ''User not found'', db)
      else if userId = caller then (Error 400 ''Cannot delete your own account'', db)
      else (Message ''User deleted successfully'', delete_user_row userId db))"

definition delete_groups_id :: "nat \<Rightarrow> handler" where
  "delete_groups_id groupId db =
     (if groupId \<notin> set (map g_id (groups db)) then (Error 404 ''Group not found'', db)
      else (Message ''Group deleted successfully'', delete_group_row groupId db))"

definition delete_roles_id :: "nat \<Rightarrow> handler" where
  "delete_roles_id roleId db =
     (if roleId \<notin> set (map r_id (roles db)) then (Error 404 ''Role not found'', db)
      else (Message ''Role deleted successfully'', delete_role_row roleId db))"

definition delete_modules_id :: "nat \<Rightarrow> handler" where
  "delete_modules_id moduleId db =
     (if moduleId \<notin> set (map m_id (modules db)) then (Error 404 ''Module not found'', db)
      else (Message ''Module deleted successfully'', delete_module_row moduleId db))"

definition delete_permissions_id :: "nat \<Rightarrow> handler" where
  "delete_permissions_id permissionId db =
     (if permissionId \<notin> set (map p_id (permissions db)) then (Error 404 ''Permission not found'', db)
      else (Message ''Permission deleted successfully'',
            delete_permission_rows (\<lambda>p. p_id p = permissionId) db))"

text \<open>The whole route \<open>DELETE /users/:id\<close>, middleware included, in the source's order.\<close>

definition route_delete_users_id :: "nat \<Rightarrow> int option \<Rightarrow> handler" where
  "route_delete_users_id caller param =
     checkPermission ''Users'' ''delete'' caller (validateId param (delete_users_id caller))"

subsection \<open>Assigning and removing (link and unlink)\<close>

text \<open>
  The handlers build \<open>SELECT ... WHERE id IN (?,?,...)\<close> and
  \<open>DELETE ... WHERE owner = ? AND counterpart IN (?,?,...)\<close> with one \<open>?\<close> for each id
  of the request. SQLite refuses a statement with more than \<open>SQLITE_MAX_VARIABLE_NUMBER\<close>
  parameters (\<open>too many SQL variables\<close>; 32766 as SQLite is compiled by default), and
  the statement's callback then gets an \<open>err\<close>. The request schemas put no upper bound
  on the length of the list.
\<close>

definition max_variable_number :: nat where
  "max_variable_number = 32766"

text \<open>
  \<open>ids.forEach(id => stmt.run(..., (err) => ...))\<close>: every statement is run, whether or
  not an earlier one failed; the flag is \<open>hasError\<close>.
\<close>

fun run_each :: "('a \<Rightarrow> database \<Rightarrow> nat option \<times> database) \<Rightarrow> 'a list \<Rightarrow> database \<Rightarrow> bool \<times> database" where
  "run_each stmt [] db = (False, db)"
| "run_each stmt (x # xs) db =
     (case stmt x db of
        (r, db1) \<Rightarrow> (case run_each stmt xs db1 of (hasError, db2) \<Rightarrow> (r = None \<or> hasError, db2)))"

text \<open>
  The response of the insert loop: the first failing statement answers 500; otherwise the
  callback of the last statement answers 200, and with an empty list no callback runs.
\<close>

definition assigned :: "bool \<Rightarrow> 'a list \<Rightarrow> string \<Rightarrow> string \<Rightarrow> response" where
  "assigned hasError ids failure success =
     (if hasError then Error 500 failure else if ids = [] then No_response else Message success)"

definition post_groups_id_users :: "nat \<Rightarrow> nat list \<Rightarrow> handler" where
  "post_groups_id_users groupId userIds db =
     (if groupId \<notin> set (map g_id (groups db)) then (Error 404 ''Group not found'', db)
      else if max_variable_number < length userIds then (Error 500 ''Database error'', db)
      else if length (filter (\<lambda>u. u_id u \<in> set userIds) (users db)) \<noteq> length userIds
      then (Error 400 ''One or more users not found'', db)
      else if max_variable_number < Suc (length userIds)
      then (Error 500 ''Failed to clear existing assignments'', db)
      else let db1 = db\<lparr>user_groups :=
                          filter (\<lambda>ug. \<not> (ug_group_id ug = groupId \<and> ug_user_id ug \<in> set userIds))
                            (user_groups db)\<rparr>
           in case run_each (\<lambda>userId. insert_user_group userId groupId) userIds db1 of
                (hasError, db2) \<Rightarrow>
                  (assigned hasError userIds ''Failed to assign users to group''
                     ''Users assigned to group successfully'', db2))"

definition delete_groups_id_users :: "nat \<Rightarrow> nat list \<Rightarrow> handler" where
  "delete_groups_id_users groupId userIds db =
     (if groupId \<notin> set (map g_id (groups db)) then (Error 404 ''Group not found'', db)
      else if max_variable_number < Suc (length userIds)
      then (Error 500 ''Failed to remove users from group'', db)
      else (Removed ''Users removed from group successfully''
              (length (filter (\<lambda>ug. ug_group_id ug = groupId \<and> ug_user_id ug \<in> set userIds) (user_groups db))),
            db\<lparr>user_groups :=
                  filter (\<lambda>ug. \<not> (ug_group_id ug = groupId \<and> ug_user_id ug \<in> set userIds))
                    (user_groups db)\<rparr>))"

definition post_groups_id_roles :: "nat \<Rightarrow> nat list \<Rightarrow> handler" where
  "post_groups_id_roles groupId roleIds db =
     (if groupId \<notin> set (map g_id (groups db)) then (Error 404 ''Group not found'', db)
      else if max_variable_number < length roleIds then (Error 500 ''Database error'', db)
      else if length (filter (\<lambda>r. r_id r \<in> set roleIds) (roles db)) \<noteq> length roleIds
      then (Error 400 ''One or more roles not found'', db)
      else if max_variable_number < Suc (length roleIds)
      then (Error 500 ''Failed to clear existing assignments'', db)
      else let db1 = db\<lparr>group_roles :=
                          filter (\<lambda>gr. \<not> (gr_group_id gr = groupId \<and> gr_role_id gr \<in> set roleIds))
                            (group_roles db)\<rparr>
           in case run_each (\<lambda>roleId. insert_group_role groupId roleId) roleIds db1 of
                (hasError, db2) \<Rightarrow>
                  (assigned hasError roleIds ''Failed to assign roles to group''
                     ''Roles assigned to group successfully'', db2))"

definition delete_groups_id_roles :: "nat \<Rightarrow> nat list \<Rightarrow> handler" where
  "delete_groups_id_roles groupId roleIds db =
     (if groupId \<notin> set (map g_id (groups db)) then (Error 404 ''Group not found'', db)
      else if max_variable_number < Suc (length roleIds)
      then (Error 500 ''Failed to remove roles from group'', db)
      else (Removed ''Roles removed from group successfully''
              (length (filter (\<lambda>gr. gr_group_id gr = groupId \<and> gr_role_id gr \<in> set roleIds) (group_roles db))),
            db\<lparr>group_roles :=
                  filter (\<lambda>gr. \<not> (gr_group_id gr = groupId \<and> gr_role_id gr \<in> set roleIds))
                    (group_roles db)\<rparr>))"

definition post_roles_id_permissions :: "nat \<Rightarrow> nat list \<Rightarrow> handler" where
  "post_roles_id_permissions roleId permissionIds db =
     (if roleId \<notin> set (map r_id (roles db)) then (Error 404 ''Role not found'', db)
      else if max_variable_number < length permissionIds then (Error 500 ''Database error'', db)
      else if length (filter (\<lambda>p. p_id p \<in> set permissionIds) (permissions db)) \<noteq> length permissionIds
      then (Error 400 ''One or more permissions not found'', db)
      else if max_variable_number < Suc (length permissionIds)
      then (Error 500 ''Failed to clear existing assignments'', db)
      else let db1 = db\<lparr>role_permissions :=
                          filter (\<lambda>rp. \<not> (rp_role_id rp = roleId \<and> rp_permission_id rp \<in> set permissionIds))
                            (role_permissions db)\<rparr>
           in case run_each (\<lambda>permissionId. insert_role_permission roleId permissionId) permissionIds db1 of
                (hasError, db2) \<Rightarrow>
                  (assigned hasError permissionIds ''Failed to assign permissions to role''
                     ''Permissions assigned to role successfully'', db2))"

definition delete_roles_id_permissions :: "nat \<Rightarrow> nat list \<Rightarrow> handler" where
  "delete_roles_id_permissions roleId permissionIds db =
     (if roleId \<notin> set (map r_id (roles db)) then (Error 404 ''Role not found'', db)
      else if max_variable_number < Suc (length permissionIds)
      then (Error 500 ''Failed to remove permissions from role'', db)
      else (Removed ''Permissions removed from role successfully''
              (length (filter (\<lambda>rp. rp_role_id rp = roleId \<and> rp_permission_id rp \<in> set permissionIds)
                         (role_permissions db))),
            db\<lparr>role_permissions :=
                  filter (\<lambda>rp. \<not> (rp_role_id rp = roleId \<and> rp_permission_id rp \<in> set permissionIds))
                    (role_permissions db)\<rparr>))"

section \<open>The update routes and the stores the routes can reach\<close>

text \<open>
  \<open>UPDATE t SET ... WHERE id = ?\<close> fails (\<open>None\<close>) when it would give the row a value
  that a \<open>UNIQUE\<close> column already holds in another row. A field that the statement does
  not set is \<open>None\<close>.
\<close>

definition update_user ::
  "nat \<Rightarrow> string option \<Rightarrow> string option \<Rightarrow> string option \<Rightarrow> database \<Rightarrow> database option" where
  "update_user userId un em ph db =
     (if userId \<in> set (map u_id (users db)) \<and>
         (\<exists>u \<in> set (users db). u_id u \<noteq> userId \<and> (un = Some (username u) \<or> em = Some (email u)))
      then None
      else Some (db\<lparr>users :=
             map (\<lambda>u. if u_id u = userId
                        then u\<lparr>username := (case un of None \<Rightarrow> username u | Some v \<Rightarrow> v),
                               email := (case em of None \<Rightarrow> email u | Some v \<Rightarrow> v),
                               password_hash := (case ph of None \<Rightarrow> password_hash u | Some v \<Rightarrow> v)\<rparr>
                        else u)
               (users db)\<rparr>))"

definition update_group :: "nat \<Rightarrow> string \<Rightarrow> string option \<Rightarrow> database \<Rightarrow> database option" where
  "update_group groupId n d db =
     (if groupId \<in> set (map g_id (groups db)) \<and> (\<exists>g \<in> set (groups db). g_id g \<noteq> groupId \<and> g_name g = n)
      then None
      else Some (db\<lparr>groups :=
             map (\<lambda>g. if g_id g = groupId then g\<lparr>g_name := n, g_description := d\<rparr> else g) (groups db)\<rparr>))"

definition update_role :: "nat \<Rightarrow> string \<Rightarrow> string option \<Rightarrow> database \<Rightarrow> database option" where
  "update_role roleId n d db =
     (if roleId \<in> set (map r_id (roles db)) \<and> (\<exists>r \<in> set (roles db). r_id r \<noteq> roleId \<and> r_name r = n)
      then None
      else Some (db\<lparr>roles :=
             map (\<lambda>r. if r_id r = roleId then r\<lparr>r_name := n, r_description := d\<rparr> else r) (roles db)\<rparr>))"

definition update_module :: "nat \<Rightarrow> string \<Rightarrow> string option \<Rightarrow> database \<Rightarrow> database option" where
  "update_module moduleId n d db =
     (if moduleId \<in> set (map m_id (modules db)) \<and> (\<exists>m \<in> set (modules db). m_id m \<noteq> moduleId \<and> m_name m = n)
      then None
      else Some (db\<lparr>modules :=
             map (\<lambda>m. if m_id m = moduleId then m\<lparr>m_name := n, m_description := d\<rparr> else m) (modules db)\<rparr>))"

definition update_permission :: "nat \<Rightarrow> string \<Rightarrow> database \<Rightarrow> database option" where
  "update_permission permissionId a db =
     (if \<exists>p \<in> set (permissions db). p_id p = permissionId \<and>
           (\<exists>q \<in> set (permissions db). p_id q \<noteq> permissionId \<and> action q = a \<and> module_id q = module_id p)
      then None
      else Some (db\<lparr>permissions :=
             map (\<lambda>p. if p_id p = permissionId then p\<lparr>action := a\<rparr> else p) (permissions db)\<rparr>))"

text \<open>
  \<open>PUT /users/:id\<close>. \<open>if (username)\<close>, \<open>if (email)\<close> and \<open>if (password)\<close> test for a
  present, non-empty string; \<open>passwordHash\<close> is the hash of the password when one is
  given.
\<close>

definition given :: "string option \<Rightarrow> string option" where
  "given field = (case field of None \<Rightarrow> None | Some v \<Rightarrow> if v = [] then None else Some v)"

definition put_users_id :: "nat \<Rightarrow> string option \<Rightarrow> string option \<Rightarrow> string option \<Rightarrow> handler" where
  "put_users_id userId un em passwordHash db =
     (if userId \<notin> set (map u_id (users db)) then (Error 404 ''User not found'', db)
      else if \<exists>u \<in> set (users db). given un = Some (username u) \<and> u_id u \<noteq> userId
      then (Error 400 ''Username already exists'', db)
      else if \<exists>u \<in> set (users db). given em = Some (email u) \<and> u_id u \<noteq> userId
      then (Error 400 ''Email already exists'', db)
      else if given un = None \<and> given em = None \<and> given passwordHash = None
      then (Error 400 ''No valid fields to update'', db)
      else case update_user userId (given un) (given em) (given passwordHash) db of
             None \<Rightarrow> (Error 500 ''Failed to update user'', db)
           | Some db' \<Rightarrow> (Message ''User updated successfully'', db'))"

definition put_groups_id :: "nat \<Rightarrow> string \<Rightarrow> string option \<Rightarrow> handler" where
  "put_groups_id groupId name description db =
     (if groupId \<notin> set (map g_id (groups db)) then (Error 404 ''Group not found'', db)
      else if \<exists>g \<in> set (groups db). g_name g = name \<and> g_id g \<noteq> groupId
      then (Error 400 ''Group name already exists'', db)
      else case update_group groupId name (or_null description) db of
             None \<Rightarrow> (Error 500 ''Failed to update group'', db)
           | Some db' \<Rightarrow> (Message ''Group updated successfully'', db'))"

definition put_roles_id :: "nat \<Rightarrow> string \<Rightarrow> string option \<Rightarrow> handler" where
  "put_roles_id roleId name description db =
     (if roleId \<notin> set (map r_id (roles db)) then (Error 404 ''Role not found'', db)
      else if \<exists>r \<in> set (roles db). r_name r = name \<and> r_id r \<noteq> roleId
      then (Error 400 ''Role name already exists'', db)
      else case update_role roleId name (or_null description) db of
             None \<Rightarrow> (Error 500 ''Failed to update role'', db)
           | Some db' \<Rightarrow> (Message ''Role updated successfully'', db'))"

definition put_modules_id :: "nat \<Rightarrow> string \<Rightarrow> string option \<Rightarrow> handler" where
  "put_modules_id moduleId name description db =
     (if moduleId \<notin> set (map m_id (modules db)) then (Error 404 ''Module not found'', db)
      else if \<exists>m \<in> set (modules db). m_name m = name \<and> m_id m \<noteq> moduleId
      then (Error 400 ''Module name already exists'', db)
      else case update_module moduleId name (or_null description) db of
             None \<Rightarrow> (Error 500 ''Failed to update module'', db)
           | Some db' \<Rightarrow> (Message ''Module updated successfully'', db'))"

definition put_permissions_id :: "nat \<Rightarrow> string \<Rightarrow> handler" where
  "put_permissions_id permissionId a db =
     (if a \<notin> set actions
      then (Error 400 ''Invalid action. Must be one of: create, read, update, delete'', db)
      else if permissionId \<notin> set (map p_id (permissions db)) then (Error 404 ''Permission not found'', db)
      else if \<exists>p \<in> set (permissions db). p_id p = permissionId \<and>
                (\<exists>q \<in> set (permissions db). action q = a \<and> module_id q = module_id p \<and> p_id q \<noteq> permissionId)
      then (Error 400 ''Permission with this action already exists for this module'', db)
      else case update_permission permissionId a db of
             None \<Rightarrow> (Error 500 ''Failed to update permission'', db)
           | Some db' \<Rightarrow> (Message ''Permission updated successfully'', db'))"

text \<open>
  Every request that can change the store, with the arguments its handler reads. The
  middleware in front of a handler can only keep a request from reaching it, so the
  stores reachable through the handlers alone include every store the server can be in.
\<close>

datatype request =
    Post_users string string "string option"
  | Post_register string string string
  | Put_users_id nat "string option" "string option" "string option"
  | Delete_users_id nat nat
  | Post_groups string "string option"
  | Put_groups_id nat string "string option"
  | Delete_groups_id nat
  | Post_groups_id_users nat "nat list"
  | Delete_groups_id_users nat "nat list"
  | Post_groups_id_roles nat "nat list"
  | Delete_groups_id_roles nat "nat list"
  | Post_roles string "string option"
  | Put_roles_id nat string "string option"
  | Delete_roles_id nat
  | Post_roles_id_permissions nat "nat list"
  | Delete_roles_id_permissions nat "nat list"
  | Post_modules string "string option"
  | Put_modules_id nat string "string option"
  | Delete_modules_id nat
  | Post_permissions string nat
  | Put_permissions_id nat string
  | Delete_permissions_id nat

fun handle :: "request \<Rightarrow> handler" where
  "handle (Post_users un em ph) = post_users un em ph"
| "handle (Post_register un em ph) = post_register un em ph"
| "handle (Put_users_id i un em ph) = put_users_id i un em ph"
| "handle (Delete_users_id caller i) = delete_users_id caller i"
| "handle (Post_groups n d) = post_groups n d"
| "handle (Put_groups_id i n d) = put_groups_id i n d"
| "handle (Delete_groups_id i) = delete_groups_id i"
| "handle (Post_groups_id_users i ids) = post_groups_id_users i ids"
| "handle (Delete_groups_id_users i ids) = delete_groups_id_users i ids"
| "handle (Post_groups_id_roles i ids) = post_groups_id_roles i ids"
| "handle (Delete_groups_id_roles i ids) = delete_groups_id_roles i ids"
| "handle (Post_roles n d) = post_roles n d"
| "handle (Put_roles_id i n d) = put_roles_id i n d"
| "handle (Delete_roles_id i) = delete_roles_id i"
| "handle (Post_roles_id_permissions i ids) = post_roles_id_permissions i ids"
| "handle (Delete_roles_id_permissions i ids) = delete_roles_id_permissions i ids"
| "handle (Post_modules n d) = post_modules n d"
| "handle (Put_modules_id i n d) = put_modules_id i n d"
| "handle (Delete_modules_id i) = delete_modules_id i"
| "handle (Post_permissions a m) = post_permissions a m"
| "handle (Put_permissions_id i a) = put_permissions_id i a"
| "handle (Delete_permissions_id i) = delete_permissions_id i"

text \<open>The stores after the seed and any sequence of requests.\<close>

inductive reachable :: "database \<Rightarrow> bool" where
  seeded: "reachable (snd (initializeDatabase adminPassword))"
| request: "reachable db \<Longrightarrow> reachable (snd (handle req db))"

section \<open>Properties of the store\<close>

text \<open>
  What the primary keys and the sequences guarantee in every store the program builds:
  the ids of a table are distinct, positive and at most the table's sequence; module
  names are distinct (\<open>UNIQUE\<close>); and a permission's \<open>module_id\<close> is an id the modules
  table has handed out.
\<close>

definition wf_db :: "database \<Rightarrow> bool" where
  "wf_db db \<longleftrightarrow>
     distinct (map u_id (users db)) \<and> (\<forall>u \<in> set (users db). 0 < u_id u \<and> u_id u \<le> users_seq db) \<and>
     distinct (map g_id (groups db)) \<and> (\<forall>g \<in> set (groups db). 0 < g_id g \<and> g_id g \<le> groups_seq db) \<and>
     distinct (map r_id (roles db)) \<and> (\<forall>r \<in> set (roles db). 0 < r_id r \<and> r_id r \<le> roles_seq db) \<and>
     distinct (map m_id (modules db)) \<and> (\<forall>m \<in> set (modules db). 0 < m_id m \<and> m_id m \<le> modules_seq db) \<and>
     distinct (map m_name (modules db)) \<and>
     distinct (map p_id (permissions db)) \<and>
     (\<forall>p \<in> set (permissions db). 0 < p_id p \<and> p_id p \<le> permissions_seq db \<and> module_id p \<le> modules_seq db)"

text \<open>
  The store that the seed is expected to produce, row by row. The permissions were
  inserted module by module in the order \<open>SELECT id FROM modules\<close> gave: Groups (2),
  Modules (4), Permissions (5), Roles (3), Users (1).
\<close>

definition seeded_store :: "string \<Rightarrow> database" where
  "seeded_store adminPassword =
     \<lparr>foreign_keys = False,
      users = [\<lparr>u_id = 1, username = ''admin'', email = ''joydaven@gmail.com'', password_hash = adminPassword\<rparr>],
      users_seq = 1,
      groups = [\<lparr>g_id = 1, g_name = ''Administrators'', g_description = Some ''System administrators group''\<rparr>],
      groups_seq = 1,
      roles = [\<lparr>r_id = 1, r_name = ''Admin'', r_description = Some ''Full system administrator''\<rparr>],
      roles_seq = 1,
      modules =
        [\<lparr>m_id = 1, m_name = ''Users'', m_description = Some ''User management module''\<rparr>,
         \<lparr>m_id = 2, m_name = ''Groups'', m_description = Some ''Group management module''\<rparr>,
         \<lparr>m_id = 3, m_name = ''Roles'', m_description = Some ''Role management module''\<rparr>,
         \<lparr>m_id = 4, m_name = ''Modules'', m_description = Some ''Module management''\<rparr>,
         \<lparr>m_id = 5, m_name = ''Permissions'', m_description = Some ''Permission management''\<rparr>],
      modules_seq = 5,
      permissions =
        map (\<lambda>(i, a, m). \<lparr>p_id = i, action = a, module_id = m\<rparr>)
          [(1, ''create'', 2), (2, ''read'', 2), (3, ''update'', 2), (4, ''delete'', 2),
           (5, ''create'', 4), (6, ''read'', 4), (7, ''update'', 4), (8, ''delete'', 4),
           (9, ''create'', 5), (10, ''read'', 5), (11, ''update'', 5), (12, ''delete'', 5),
           (13, ''create'', 3), (14, ''read'', 3), (15, ''update'', 3), (16, ''delete'', 3),
           (17, ''create'', 1), (18, ''read'', 1), (19, ''update'', 1), (20, ''delete'', 1)],
      permissions_seq = 20,
      user_groups = [\<lparr>ug_id = 1, ug_user_id = 1, ug_group_id = 1\<rparr>],
      user_groups_seq = 1,
      group_roles = [\<lparr>gr_id = 1, gr_group_id = 1, gr_role_id = 1\<rparr>],
      group_roles_seq = 1,
      role_permissions = map (\<lambda>i. \<lparr>rp_id = i, rp_role_id = 1, rp_permission_id = i\<rparr>) [1..<21],
      role_permissions_seq = 20\<rparr>"

text \<open>The members of a group: the users that \<open>user_groups\<close> pairs with it.\<close>

definition group_members :: "database \<Rightarrow> nat \<Rightarrow> nat set" where
  "group_members db groupId =
     ug_user_id ` set (filter (\<lambda>ug. ug_group_id ug = groupId) (user_groups db))"

text \<open>
  The claim's own words for a user's permissions: the union, over every group the user
  belongs to, over every role assigned to that group, of the (module name, action) pairs
  of every permission the role holds.
\<close>

definition groups_of :: "database \<Rightarrow> nat \<Rightarrow> nat set" where
  "groups_of db U = {ug_group_id ug | ug. ug \<in> set (user_groups db) \<and> ug_user_id ug = U}"

definition roles_of :: "database \<Rightarrow> nat \<Rightarrow> nat set" where
  "roles_of db g = {gr_role_id gr | gr. gr \<in> set (group_roles db) \<and> gr_group_id gr = g}"

definition permissions_of :: "database \<Rightarrow> nat \<Rightarrow> (string \<times> string) set" where
  "permissions_of db r =
     {(m_name m, action p) | rp p m.
        rp \<in> set (role_permissions db) \<and> rp_role_id rp = r \<and>
        p \<in> set (permissions db) \<and> p_id p = rp_permission_id rp \<and>
        m \<in> set (modules db) \<and> m_id m = module_id p}"

definition user_grants :: "database \<Rightarrow> nat \<Rightarrow> (string \<times> string) set" where
  "user_grants db U = (\<Union>g \<in> groups_of db U. \<Union>r \<in> roles_of db g. permissions_of db r)"

text \<open>The entity tables and their sequences: all that \<open>wf_db\<close> looks at.\<close>

definition entities ::
  "database \<Rightarrow> (user_row list \<times> nat) \<times> (group_row list \<times> nat) \<times> (role_row list \<times> nat) \<times>
     (module_row list \<times> nat) \<times> (permission_row list \<times> nat)" where
  "entities db =
     ((users db, users_seq db), (groups db, groups_seq db), (roles db, roles_seq db),
      (modules db, modules_seq db), (permissions db, permissions_seq db))"

section \<open>The seeded store\<close>

lemma initializeDatabase_seeded: "initializeDatabase h = (Resolved, seeded_store h)"
  by code_simp

lemma wf_db_seeded: "wf_db (seeded_store h)"
  by code_simp

section \<open>Every reachable store is well formed and unenforced\<close>

lemma wf_db_entities: "entities db' = entities db \<Longrightarrow> wf_db db' = wf_db db"
  by (simp add: entities_def wf_db_def)

lemma run_each_keeps:
  assumes "\<And>x d. f (snd (stmt x d)) = f d"
  shows "f (snd (run_each stmt xs db)) = f db"
proof (induction xs arbitrary: db)
  case Nil
  show ?case by simp
next
  case (Cons x xs)
  have "snd (run_each stmt (x # xs) db) = snd (run_each stmt xs (snd (stmt x db)))"
    by (simp split: prod.split)
  then show ?case using Cons.IH [of "snd (stmt x db)"] assms [of x db] by simp
qed

lemma fold_keeps:
  assumes "\<And>x d. f (step x d) = f d"
  shows "f (fold step xs db) = f db"
  by (induction xs arbitrary: db) (simp_all add: assms)

lemma fold_preserves:
  assumes "\<And>x d. P d \<Longrightarrow> P (step x d)" and "P db"
  shows "P (fold step xs db)"
  using assms(2) by (induction xs arbitrary: db) (simp_all add: assms(1))

lemma insert_foreign_keys:
  "foreign_keys (snd (insert_user un em ph db)) = foreign_keys db"
  "foreign_keys (snd (insert_group n d db)) = foreign_keys db"
  "foreign_keys (snd (insert_role n d db)) = foreign_keys db"
  "foreign_keys (snd (insert_module n d db)) = foreign_keys db"
  "foreign_keys (snd (insert_permission a m db)) = foreign_keys db"
  "foreign_keys (snd (insert_user_group u g db)) = foreign_keys db"
  "foreign_keys (snd (insert_group_role g r db)) = foreign_keys db"
  "foreign_keys (snd (insert_role_permission r p db)) = foreign_keys db"
  by (simp_all add: insert_user_def insert_group_def insert_role_def insert_module_def
      insert_permission_def insert_user_group_def insert_group_role_def insert_role_permission_def Let_def)

lemma insert_link_entities:
  "entities (snd (insert_user_group u g db)) = entities db"
  "entities (snd (insert_group_role g r db)) = entities db"
  "entities (snd (insert_role_permission r p db)) = entities db"
  by (simp_all add: insert_user_group_def insert_group_role_def insert_role_permission_def
      Let_def entities_def)
lemma wf_db_insert_user: "wf_db db \<Longrightarrow> wf_db (snd (insert_user un em ph db))"
  unfolding insert_user_def wf_db_def Let_def by (auto simp: le_Suc_eq)

lemma wf_db_insert_group: "wf_db db \<Longrightarrow> wf_db (snd (insert_group n d db))"
  unfolding insert_group_def wf_db_def Let_def by (auto simp: le_Suc_eq)

lemma wf_db_insert_role: "wf_db db \<Longrightarrow> wf_db (snd (insert_role n d db))"
  unfolding insert_role_def wf_db_def Let_def by (auto simp: le_Suc_eq)

lemma wf_db_insert_module: "wf_db db \<Longrightarrow> wf_db (snd (insert_module n d db))"
  unfolding insert_module_def wf_db_def Let_def by (auto simp: le_Suc_eq)
lemma wf_db_insert_permission:
  "wf_db db \<Longrightarrow> mid \<le> modules_seq db \<Longrightarrow> wf_db (snd (insert_permission a mid db))"
  unfolding insert_permission_def wf_db_def Let_def by (auto simp: le_Suc_eq)

lemma modules_seq_insert_permission: "modules_seq (snd (insert_permission a mid db)) = modules_seq db"
  by (simp add: insert_permission_def Let_def)

lemma wf_db_module_known: "wf_db db \<Longrightarrow> mid \<in> set (map m_id (modules db)) \<Longrightarrow> mid \<le> modules_seq db"
  by (auto simp: wf_db_def)

lemma snd_case_insert:
  "snd (case p of (None, d) \<Rightarrow> (e, d) | (Some i, d) \<Rightarrow> (c i, d)) = snd p"
  by (cases p; cases "fst p") auto

lemma wf_db_post_users: "wf_db db \<Longrightarrow> wf_db (snd (post_users un em ph db))"
  by (simp add: post_users_def snd_case_insert wf_db_insert_user split: option.split)

lemma wf_db_post_register: "wf_db db \<Longrightarrow> wf_db (snd (post_register un em ph db))"
  by (simp add: post_register_def snd_case_insert wf_db_insert_user)

lemma wf_db_post_groups: "wf_db db \<Longrightarrow> wf_db (snd (post_groups n d db))"
  by (simp add: post_groups_def snd_case_insert wf_db_insert_group)

lemma wf_db_post_roles: "wf_db db \<Longrightarrow> wf_db (snd (post_roles n d db))"
  by (simp add: post_roles_def snd_case_insert wf_db_insert_role)

lemma wf_db_post_permissions: "wf_db db \<Longrightarrow> wf_db (snd (post_permissions a mid db))"
  using wf_db_module_known [of db mid]
  by (simp add: post_permissions_def snd_case_insert wf_db_insert_permission)

lemma wf_db_post_modules:
  assumes "wf_db db"
  shows "wf_db (snd (post_modules n d db))"
proof (cases "\<exists>m \<in> set (modules db). m_name m = n")
  case True
  then show ?thesis using assms by (simp add: post_modules_def)
next
  case False
  obtain r db1 where ins: "insert_module n (or_null d) db = (r, db1)" by (cases "insert_module n (or_null d) db")
  have wf1: "wf_db db1" using wf_db_insert_module [OF assms, of n "or_null d"] by (simp add: ins)
  show ?thesis
  proof (cases r)
    case None
    then show ?thesis using False wf1 by (simp add: post_modules_def ins)
  next
    case (Some mid)
    have mid: "mid = modules_seq db1"
      using ins Some False by (auto simp: insert_module_def Let_def split: if_splits)
    have "wf_db (fold (\<lambda>a d. snd (insert_permission a mid d)) actions db1) \<and>
          mid \<le> modules_seq (fold (\<lambda>a d. snd (insert_permission a mid d)) actions db1)"
      by (rule fold_preserves [where P = "\<lambda>d. wf_db d \<and> mid \<le> modules_seq d"])
        (simp_all add: wf_db_insert_permission modules_seq_insert_permission wf1 mid)
    then show ?thesis using False by (simp add: post_modules_def ins Some)
  qed
qed
lemma wf_db_delete_rows:
  assumes "wf_db db"
  shows "wf_db (delete_user_row i db)" and "wf_db (delete_group_row i db)"
    and "wf_db (delete_role_row i db)" and "wf_db (delete_permission_rows P db)"
    and "wf_db (delete_module_row i db)"
  using assms
  by (auto simp: wf_db_def delete_user_row_def delete_group_row_def delete_role_row_def
      delete_permission_rows_def delete_module_row_def Let_def distinct_map_filter)

lemma wf_db_delete_handlers:
  assumes "wf_db db"
  shows "wf_db (snd (delete_users_id caller i db))" and "wf_db (snd (delete_groups_id i db))"
    and "wf_db (snd (delete_roles_id i db))" and "wf_db (snd (delete_modules_id i db))"
    and "wf_db (snd (delete_permissions_id i db))"
  using assms
  by (simp_all add: delete_users_id_def delete_groups_id_def delete_roles_id_def delete_modules_id_def
      delete_permissions_id_def wf_db_delete_rows)

lemma map_id_update: "map f (map (\<lambda>x. if f x = i then g x else x) xs) = map f xs"
  if "\<And>x. f (g x) = f x"
  by (induction xs) (simp_all add: that)

lemma wf_db_update_user:
  assumes "wf_db db" and "update_user i un em ph db = Some db'"
  shows "wf_db db'"
proof -
  let ?g = "\<lambda>u. u\<lparr>username := (case un of None \<Rightarrow> username u | Some v \<Rightarrow> v),
                    email := (case em of None \<Rightarrow> email u | Some v \<Rightarrow> v),
                    password_hash := (case ph of None \<Rightarrow> password_hash u | Some v \<Rightarrow> v)\<rparr>"
  have db': "db' = db\<lparr>users := map (\<lambda>u. if u_id u = i then ?g u else u) (users db)\<rparr>"
    using assms(2) by (simp add: update_user_def split: if_splits)
  have ids: "map u_id (users db') = map u_id (users db)"
    unfolding db' by (simp add: map_id_update)
  have d: "distinct (map u_id (users db'))" using assms(1) ids by (simp add: wf_db_def)
  have b: "\<forall>u \<in> set (users db'). 0 < u_id u \<and> u_id u \<le> users_seq db"
    using assms(1) unfolding db' by (auto simp: wf_db_def)
  have o: "users_seq db' = users_seq db" "groups db' = groups db" "groups_seq db' = groups_seq db"
    "roles db' = roles db" "roles_seq db' = roles_seq db" "modules db' = modules db"
    "modules_seq db' = modules_seq db" "permissions db' = permissions db"
    "permissions_seq db' = permissions_seq db"
    by (simp_all add: db')
  show ?thesis using assms(1) d b by (simp add: wf_db_def o)
qed

lemma wf_db_update_group:
  assumes "wf_db db" and "update_group i n d db = Some db'"
  shows "wf_db db'"
proof -
  have db': "db' = db\<lparr>groups := map (\<lambda>g. if g_id g = i then g\<lparr>g_name := n, g_description := d\<rparr> else g) (groups db)\<rparr>"
    using assms(2) by (simp add: update_group_def split: if_splits)
  have ids: "map g_id (groups db') = map g_id (groups db)"
    unfolding db' by (simp add: map_id_update)
  have d: "distinct (map g_id (groups db'))" using assms(1) ids by (simp add: wf_db_def)
  have b: "\<forall>g \<in> set (groups db'). 0 < g_id g \<and> g_id g \<le> groups_seq db"
    using assms(1) unfolding db' by (auto simp: wf_db_def)
  have o: "users db' = users db" "users_seq db' = users_seq db" "groups_seq db' = groups_seq db"
    "roles db' = roles db" "roles_seq db' = roles_seq db" "modules db' = modules db"
    "modules_seq db' = modules_seq db" "permissions db' = permissions db"
    "permissions_seq db' = permissions_seq db"
    by (simp_all add: db')
  show ?thesis using assms(1) d b by (simp add: wf_db_def o)
qed

lemma wf_db_update_role:
  assumes "wf_db db" and "update_role i n d db = Some db'"
  shows "wf_db db'"
proof -
  have db': "db' = db\<lparr>roles := map (\<lambda>r. if r_id r = i then r\<lparr>r_name := n, r_description := d\<rparr> else r) (roles db)\<rparr>"
    using assms(2) by (simp add: update_role_def split: if_splits)
  have ids: "map r_id (roles db') = map r_id (roles db)"
    unfolding db' by (simp add: map_id_update)
  have d: "distinct (map r_id (roles db'))" using assms(1) ids by (simp add: wf_db_def)
  have b: "\<forall>r \<in> set (roles db'). 0 < r_id r \<and> r_id r \<le> roles_seq db"
    using assms(1) unfolding db' by (auto simp: wf_db_def)
  have o: "users db' = users db" "users_seq db' = users_seq db" "groups db' = groups db"
    "groups_seq db' = groups_seq db" "roles_seq db' = roles_seq db" "modules db' = modules db"
    "modules_seq db' = modules_seq db" "permissions db' = permissions db"
    "permissions_seq db' = permissions_seq db"
    by (simp_all add: db')
  show ?thesis using assms(1) d b by (simp add: wf_db_def o)
qed

lemma wf_db_update_permission:
  assumes "wf_db db" and "update_permission i a db = Some db'"
  shows "wf_db db'"
proof -
  have db': "db' = db\<lparr>permissions := map (\<lambda>p. if p_id p = i then p\<lparr>action := a\<rparr> else p) (permissions db)\<rparr>"
    using assms(2) by (simp add: update_permission_def split: if_splits)
  have ids: "map p_id (permissions db') = map p_id (permissions db)"
    unfolding db' by (simp add: map_id_update)
  have d: "distinct (map p_id (permissions db'))" using assms(1) ids by (simp add: wf_db_def)
  have b: "\<forall>p \<in> set (permissions db'). 0 < p_id p \<and> p_id p \<le> permissions_seq db \<and> module_id p \<le> modules_seq db"
    using assms(1) unfolding db' by (auto simp: wf_db_def)
  have o: "users db' = users db" "users_seq db' = users_seq db" "groups db' = groups db"
    "groups_seq db' = groups_seq db" "roles db' = roles db" "roles_seq db' = roles_seq db"
    "modules db' = modules db" "modules_seq db' = modules_seq db"
    "permissions_seq db' = permissions_seq db"
    by (simp_all add: db')
  show ?thesis using assms(1) d b by (simp add: wf_db_def o)
qed

lemma wf_db_update_module:
  assumes "wf_db db" and "update_module i n d db = Some db'"
    and "\<forall>m \<in> set (modules db). m_name m = n \<longrightarrow> m_id m = i"
  shows "wf_db db'"
proof -
  let ?g = "\<lambda>m. m\<lparr>m_name := n, m_description := d\<rparr>"
  have db': "db' = db\<lparr>modules := map (\<lambda>m. if m_id m = i then ?g m else m) (modules db)\<rparr>"
    using assms(2) by (simp add: update_module_def split: if_splits)
  have ids: "map m_id (modules db') = map m_id (modules db)"
    unfolding db' by (simp add: map_id_update)
  have d: "distinct (map m_id (modules db'))" using assms(1) ids by (simp add: wf_db_def)
  have b: "\<forall>m \<in> set (modules db'). 0 < m_id m \<and> m_id m \<le> modules_seq db"
    using assms(1) unfolding db' by (auto simp: wf_db_def)
  have di: "distinct (map m_id (modules db))" and dn: "distinct (map m_name (modules db))"
    using assms(1) by (simp_all add: wf_db_def)
  define h :: "module_row \<Rightarrow> module_row" where "h = (\<lambda>m. if m_id m = i then ?g m else m)"
  have names: "distinct (map m_name (map h ms))"
    if "distinct (map m_id ms)" and "distinct (map m_name ms)"
      and "\<forall>m \<in> set ms. m_name m = n \<longrightarrow> m_id m = i" for ms :: "module_row list"
    using that
  proof (induction ms)
    case Nil
    show ?case by simp
  next
    case (Cons m ms)
    have rest: "distinct (map m_name (map h ms))"
      using Cons.prems by (intro Cons.IH) auto
    have fresh: "m_name (h m) \<notin> set (map m_name (map h ms))"
    proof
      assume "m_name (h m) \<in> set (map m_name (map h ms))"
      then obtain m' where m': "m' \<in> set ms" and eq: "m_name (h m) = m_name (h m')"
        by auto
      have "m_id m \<notin> m_id ` set ms" using Cons.prems(1) by simp
      then have ne: "m_id m' \<noteq> m_id m" using m' by (metis imageI)
      have "m_name m \<notin> m_name ` set ms" using Cons.prems(2) by simp
      then have nn: "m_name m' \<noteq> m_name m" using m' by (metis imageI)
      show False
      proof (cases "m_id m = i")
        case True
        then have other: "m_id m' \<noteq> i" using ne by simp
        then have "m_name m' = n" using eq True by (simp add: h_def)
        then have "m_id m' = i" using Cons.prems(3) m' by simp
        then show False using other by simp
      next
        case False
        show False
        proof (cases "m_id m' = i")
          case True
          then have "m_name m = n" using eq False by (simp add: h_def)
          then have "m_id m = i" using Cons.prems(3) by simp
          then show False using False by simp
        next
          case False2: False
          then show False using eq False nn by (simp add: h_def)
        qed
      qed
    qed
    show ?case using rest fresh by simp
  qed
  have dn': "distinct (map m_name (modules db'))"
    unfolding db' using names [OF di dn assms(3)] by (simp add: h_def)
  have o: "users db' = users db" "users_seq db' = users_seq db" "groups db' = groups db"
    "groups_seq db' = groups_seq db" "roles db' = roles db" "roles_seq db' = roles_seq db"
    "modules_seq db' = modules_seq db" "permissions db' = permissions db"
    "permissions_seq db' = permissions_seq db"
    by (simp_all add: db')
  show ?thesis using assms(1) d b dn' by (simp add: wf_db_def o)
qed
lemma wf_db_put_handlers:
  assumes "wf_db db"
  shows "wf_db (snd (put_users_id i un em ph db))" and "wf_db (snd (put_groups_id i n d db))"
    and "wf_db (snd (put_roles_id i n d db))" and "wf_db (snd (put_permissions_id i a db))"
  using assms
  by (auto simp: put_users_id_def put_groups_id_def put_roles_id_def put_permissions_id_def
      split: option.split
      intro: wf_db_update_user wf_db_update_group wf_db_update_role wf_db_update_permission)

lemma wf_db_put_modules_id:
  assumes "wf_db db"
  shows "wf_db (snd (put_modules_id i n d db))"
proof (cases "i \<notin> set (map m_id (modules db)) \<or> (\<exists>m \<in> set (modules db). m_name m = n \<and> m_id m \<noteq> i)")
  case True
  then show ?thesis using assms by (auto simp: put_modules_id_def)
next
  case False
  then have u: "\<forall>m \<in> set (modules db). m_name m = n \<longrightarrow> m_id m = i" by auto
  have c1: "i \<in> set (map m_id (modules db))" using False by blast
  have c2: "\<not> (\<exists>m \<in> set (modules db). m_name m = n \<and> m_id m \<noteq> i)" using False by blast
  show ?thesis
  proof (cases "update_module i n (or_null d) db")
    case None
    then show ?thesis using c1 c2 assms by (auto simp: put_modules_id_def)
  next
    case (Some db')
    have "wf_db db'" using assms Some u by (rule wf_db_update_module)
    then show ?thesis using c1 c2 Some by (auto simp: put_modules_id_def)
  qed
qed

lemma entities_link_handlers:
  "entities (snd (post_groups_id_users i ids db)) = entities db"
  "entities (snd (delete_groups_id_users i ids db)) = entities db"
  "entities (snd (post_groups_id_roles i ids db)) = entities db"
  "entities (snd (delete_groups_id_roles i ids db)) = entities db"
  "entities (snd (post_roles_id_permissions i ids db)) = entities db"
  "entities (snd (delete_roles_id_permissions i ids db)) = entities db"
proof -
  have e: "entities (snd (run_each stmt ids d)) = entities d"
    if "\<And>x d. entities (snd (stmt x d)) = entities d" for stmt :: "nat \<Rightarrow> database \<Rightarrow> nat option \<times> database" and d
    using that by (rule run_each_keeps)
  have s: "snd (case p of (hasError, db2) \<Rightarrow> (f hasError, db2)) = snd p"
    for p :: "bool \<times> database" and f :: "bool \<Rightarrow> response"
    by (cases p) simp
  show "entities (snd (post_groups_id_users i ids db)) = entities db"
    by (simp add: post_groups_id_users_def Let_def s e insert_link_entities) (simp add: entities_def)
  show "entities (snd (post_groups_id_roles i ids db)) = entities db"
    by (simp add: post_groups_id_roles_def Let_def s e insert_link_entities) (simp add: entities_def)
  show "entities (snd (post_roles_id_permissions i ids db)) = entities db"
    by (simp add: post_roles_id_permissions_def Let_def s e insert_link_entities) (simp add: entities_def)
  show "entities (snd (delete_groups_id_users i ids db)) = entities db"
    by (simp add: delete_groups_id_users_def entities_def)
  show "entities (snd (delete_groups_id_roles i ids db)) = entities db"
    by (simp add: delete_groups_id_roles_def entities_def)
  show "entities (snd (delete_roles_id_permissions i ids db)) = entities db"
    by (simp add: delete_roles_id_permissions_def entities_def)
qed

lemma wf_db_handle: "wf_db db \<Longrightarrow> wf_db (snd (handle req db))"
  by (cases req)
    (simp_all add: wf_db_post_users wf_db_post_register wf_db_post_groups wf_db_post_roles
      wf_db_post_modules wf_db_post_permissions wf_db_delete_handlers wf_db_put_handlers
      wf_db_put_modules_id wf_db_entities [OF entities_link_handlers(1)]
      wf_db_entities [OF entities_link_handlers(2)] wf_db_entities [OF entities_link_handlers(3)]
      wf_db_entities [OF entities_link_handlers(4)] wf_db_entities [OF entities_link_handlers(5)]
      wf_db_entities [OF entities_link_handlers(6)])
lemma foreign_keys_delete_rows:
  "foreign_keys (delete_user_row i db) = foreign_keys db"
  "foreign_keys (delete_group_row i db) = foreign_keys db"
  "foreign_keys (delete_role_row i db) = foreign_keys db"
  "foreign_keys (delete_permission_rows P db) = foreign_keys db"
  "foreign_keys (delete_module_row i db) = foreign_keys db"
  by (simp_all add: delete_user_row_def delete_group_row_def delete_role_row_def
      delete_permission_rows_def delete_module_row_def Let_def)

lemma foreign_keys_updates:
  "update_user i un em ph db = Some db' \<Longrightarrow> foreign_keys db' = foreign_keys db"
  "update_group i n d db = Some db' \<Longrightarrow> foreign_keys db' = foreign_keys db"
  "update_role i n d db = Some db' \<Longrightarrow> foreign_keys db' = foreign_keys db"
  "update_module i n d db = Some db' \<Longrightarrow> foreign_keys db' = foreign_keys db"
  "update_permission i a db = Some db' \<Longrightarrow> foreign_keys db' = foreign_keys db"
  by (auto simp: update_user_def update_group_def update_role_def update_module_def
      update_permission_def split: if_splits)

lemma foreign_keys_create_handlers:
  "foreign_keys (snd (post_users un em pw db)) = foreign_keys db"
  "foreign_keys (snd (post_register un em ph db)) = foreign_keys db"
  "foreign_keys (snd (post_groups n d db)) = foreign_keys db"
  "foreign_keys (snd (post_roles n d db)) = foreign_keys db"
  "foreign_keys (snd (post_permissions a m db)) = foreign_keys db"
  by (simp_all add: post_users_def post_register_def post_groups_def post_roles_def
      post_permissions_def snd_case_insert insert_foreign_keys split: option.split)

lemma foreign_keys_post_modules: "foreign_keys (snd (post_modules n d db)) = foreign_keys db"
proof -
  have f: "foreign_keys (fold (\<lambda>a d. snd (insert_permission a mid d)) actions db1) = foreign_keys db1"
    for mid db1
    by (rule fold_keeps) (simp add: insert_foreign_keys)
  obtain r db1 where ins: "insert_module n (or_null d) db = (r, db1)"
    by (cases "insert_module n (or_null d) db")
  have "foreign_keys db1 = foreign_keys db"
    using insert_foreign_keys(4) [of n "or_null d" db] by (simp add: ins)
  then show ?thesis by (cases r) (simp_all add: post_modules_def ins f)
qed

lemma foreign_keys_delete_handlers:
  "foreign_keys (snd (delete_users_id caller i db)) = foreign_keys db"
  "foreign_keys (snd (delete_groups_id i db)) = foreign_keys db"
  "foreign_keys (snd (delete_roles_id i db)) = foreign_keys db"
  "foreign_keys (snd (delete_modules_id i db)) = foreign_keys db"
  "foreign_keys (snd (delete_permissions_id i db)) = foreign_keys db"
  by (simp_all add: delete_users_id_def delete_groups_id_def delete_roles_id_def delete_modules_id_def
      delete_permissions_id_def foreign_keys_delete_rows)

lemma foreign_keys_put_handlers:
  "foreign_keys (snd (put_users_id i un em ph db)) = foreign_keys db"
  "foreign_keys (snd (put_groups_id i n d db)) = foreign_keys db"
  "foreign_keys (snd (put_roles_id i n d db)) = foreign_keys db"
  "foreign_keys (snd (put_modules_id i n d db)) = foreign_keys db"
  "foreign_keys (snd (put_permissions_id i a db)) = foreign_keys db"
  by (auto simp: put_users_id_def put_groups_id_def put_roles_id_def put_modules_id_def
      put_permissions_id_def foreign_keys_updates split: option.split)

lemma foreign_keys_link_handlers:
  "foreign_keys (snd (post_groups_id_users i ids db)) = foreign_keys db"
  "foreign_keys (snd (delete_groups_id_users i ids db)) = foreign_keys db"
  "foreign_keys (snd (post_groups_id_roles i ids db)) = foreign_keys db"
  "foreign_keys (snd (delete_groups_id_roles i ids db)) = foreign_keys db"
  "foreign_keys (snd (post_roles_id_permissions i ids db)) = foreign_keys db"
  "foreign_keys (snd (delete_roles_id_permissions i ids db)) = foreign_keys db"
proof -
  have e: "foreign_keys (snd (run_each stmt ids d)) = foreign_keys d"
    if "\<And>x d. foreign_keys (snd (stmt x d)) = foreign_keys d"
    for stmt :: "nat \<Rightarrow> database \<Rightarrow> nat option \<times> database" and d
    using that by (rule run_each_keeps)
  have s: "snd (case p of (hasError, db2) \<Rightarrow> (f hasError, db2)) = snd p"
    for p :: "bool \<times> database" and f :: "bool \<Rightarrow> response"
    by (cases p) simp
  show "foreign_keys (snd (post_groups_id_users i ids db)) = foreign_keys db"
    by (simp add: post_groups_id_users_def Let_def s e insert_foreign_keys)
  show "foreign_keys (snd (post_groups_id_roles i ids db)) = foreign_keys db"
    by (simp add: post_groups_id_roles_def Let_def s e insert_foreign_keys)
  show "foreign_keys (snd (post_roles_id_permissions i ids db)) = foreign_keys db"
    by (simp add: post_roles_id_permissions_def Let_def s e insert_foreign_keys)
  show "foreign_keys (snd (delete_groups_id_users i ids db)) = foreign_keys db"
    by (simp add: delete_groups_id_users_def)
  show "foreign_keys (snd (delete_groups_id_roles i ids db)) = foreign_keys db"
    by (simp add: delete_groups_id_roles_def)
  show "foreign_keys (snd (delete_roles_id_permissions i ids db)) = foreign_keys db"
    by (simp add: delete_roles_id_permissions_def)
qed

lemma foreign_keys_handle: "foreign_keys (snd (handle req db)) = foreign_keys db"
  by (cases req)
    (simp_all add: foreign_keys_create_handlers foreign_keys_post_modules foreign_keys_delete_handlers
      foreign_keys_put_handlers foreign_keys_link_handlers)

text \<open>
  Every store the server can be in is well formed, and none enforces foreign keys: no
  request switches the setting on.
\<close>

lemma reachable_wf_db: "reachable db \<Longrightarrow> wf_db db \<and> \<not> foreign_keys db"
proof (induction rule: reachable.induct)
  case (seeded adminPassword)
  show ?case
    unfolding initializeDatabase_seeded snd_conv
    using wf_db_seeded [of adminPassword] by (simp add: seeded_store_def)
next
  case (request db req)
  then show ?case by (simp add: wf_db_handle foreign_keys_handle)
qed

text \<open>
  So in every reachable store a \<open>DELETE\<close> route removes the entity's row and leaves the
  tables that reference it as they were.
\<close>

lemma reachable_delete_keeps_children:
  assumes "reachable db"
  shows "permissions (snd (delete_modules_id i db)) = permissions db"
    and "role_permissions (snd (delete_modules_id i db)) = role_permissions db"
    and "role_permissions (snd (delete_permissions_id i db)) = role_permissions db"
    and "group_roles (snd (delete_roles_id i db)) = group_roles db"
    and "role_permissions (snd (delete_roles_id i db)) = role_permissions db"
    and "user_groups (snd (delete_groups_id i db)) = user_groups db"
    and "group_roles (snd (delete_groups_id i db)) = group_roles db"
    and "user_groups (snd (delete_users_id caller i db)) = user_groups db"
proof -
  have off: "\<not> foreign_keys db" using reachable_wf_db [OF assms] by simp
  show "permissions (snd (delete_modules_id i db)) = permissions db"
    and "role_permissions (snd (delete_modules_id i db)) = role_permissions db"
    using off by (simp_all add: delete_modules_id_def delete_module_row_def Let_def)
  show "role_permissions (snd (delete_permissions_id i db)) = role_permissions db"
    using off by (simp add: delete_permissions_id_def delete_permission_rows_def Let_def)
  show "group_roles (snd (delete_roles_id i db)) = group_roles db"
    and "role_permissions (snd (delete_roles_id i db)) = role_permissions db"
    using off by (simp_all add: delete_roles_id_def delete_role_row_def Let_def)
  show "user_groups (snd (delete_groups_id i db)) = user_groups db"
    and "group_roles (snd (delete_groups_id i db)) = group_roles db"
    using off by (simp_all add: delete_groups_id_def delete_group_row_def Let_def)
  show "user_groups (snd (delete_users_id caller i db)) = user_groups db"
    using off by (simp add: delete_users_id_def delete_user_row_def Let_def)
qed

section \<open>The resolver decides by paths\<close>

lemma permission_count_pos: "0 < permission_count db U M A \<longleftrightarrow> has_path db U M A"
proof -
  have "0 < permission_count db U M A \<longleftrightarrow>
        set [(ug, gr, rp, p, m).
               ug \<leftarrow> user_groups db,
               gr \<leftarrow> group_roles db, ug_group_id ug = gr_group_id gr,
               rp \<leftarrow> role_permissions db, gr_role_id gr = rp_role_id rp,
               p \<leftarrow> permissions db, rp_permission_id rp = p_id p,
               m \<leftarrow> modules db, module_id p = m_id m,
               ug_user_id ug = U \<and> m_name m = M \<and> action p = A] \<noteq> {}"
    unfolding permission_count_def by (simp only: length_greater_0_conv set_empty)
  also have "\<dots> \<longleftrightarrow> has_path db U M A"
    unfolding has_path_def by simp blast
  finally show ?thesis .
qed

lemma permission_count_zero: "permission_count db U M A = 0 \<longleftrightarrow> \<not> has_path db U M A"
  by (simp add: permission_count_pos [symmetric])

text \<open>
  C1. For every user id, module name and action, the resolver grants exactly when a path
  user -> user_groups -> group_roles -> role_permissions -> permissions -> modules exists
  whose permission has the action and whose module has exactly that name:
  \<open>checkPermission\<close> hands the request on to the rest of the route exactly then (and
  answers 403 otherwise), \<open>POST /simulate-action\<close> reports \<open>hasPermission\<close> as exactly
  that; and neither writes: the store they pass on or leave behind is the one they got.
\<close>

theorem resolver_iff_path:
  "(has_path db U M A \<longrightarrow> checkPermission M A U next db = next db) \<and>
   (\<not> has_path db U M A \<longrightarrow>
      checkPermission M A U next db = (Error 403 (''Permission denied: '' @ A @ '' on '' @ M), db)) \<and>
   simulate_action U M A db =
     (Simulation U M A (has_path db U M A)
        (if has_path db U M A then ''User can '' @ A @ '' on '' @ M else ''User cannot '' @ A @ '' on '' @ M),
      db)"
  by (simp add: checkPermission_def simulate_action_def Let_def permission_count_zero permission_count_pos)

theorem resolver_iff_path_witness:
  "has_path (seeded_store ''x'') 1 ''Users'' ''read'' \<and>
   \<not> has_path (seeded_store ''x'') 1 ''users'' ''read'' \<and>
   checkPermission ''Users'' ''read'' 1 (simulate_action 1 ''Users'' ''read'') (seeded_store ''x'') =
     (Simulation 1 ''Users'' ''read'' True ''User can read on Users'', seeded_store ''x'') \<and>
   checkPermission ''users'' ''read'' 1 (simulate_action 1 ''users'' ''read'') (seeded_store ''x'') =
     (Error 403 ''Permission denied: read on users'', seeded_store ''x'')"
proof -
  have yes: "has_path (seeded_store ''x'') 1 ''Users'' ''read''" by code_simp
  have no: "\<not> has_path (seeded_store ''x'') 1 ''users'' ''read''" by code_simp
  show ?thesis
    using yes no
      resolver_iff_path [of "seeded_store ''x''" 1 "''Users''" "''read''" "simulate_action 1 ''Users'' ''read''"]
      resolver_iff_path [of "seeded_store ''x''" 1 "''users''" "''read''" "simulate_action 1 ''users'' ''read''"]
    by simp
qed

section \<open>What the seed produces\<close>

lemma seeded_rows:
  "user_permission_rows (seeded_store h) 1 =
     [(''Groups'', ''create''), (''Groups'', ''delete''), (''Groups'', ''read''), (''Groups'', ''update''),
      (''Modules'', ''create''), (''Modules'', ''delete''), (''Modules'', ''read''), (''Modules'', ''update''),
      (''Permissions'', ''create''), (''Permissions'', ''delete''), (''Permissions'', ''read''), (''Permissions'', ''update''),
      (''Roles'', ''create''), (''Roles'', ''delete''), (''Roles'', ''read''), (''Roles'', ''update''),
      (''Users'', ''create''), (''Users'', ''delete''), (''Users'', ''read''), (''Users'', ''update'')]"
  by code_simp

lemma seeded_permission_map:
  "getUserPermissions (seeded_store h) 1 =
     Inr (Map.empty
       (''Groups'' \<mapsto> [''create'', ''delete'', ''read'', ''update''],
        ''Modules'' \<mapsto> [''create'', ''delete'', ''read'', ''update''],
        ''Permissions'' \<mapsto> [''create'', ''delete'', ''read'', ''update''],
        ''Roles'' \<mapsto> [''create'', ''delete'', ''read'', ''update''],
        ''Users'' \<mapsto> [''create'', ''delete'', ''read'', ''update'']))"
  unfolding getUserPermissions_def seeded_rows
  by (simp add: object_prototype_keys_def)

text \<open>
  C9. Run against the empty store, the seeder resolves and leaves exactly the five modules
  Users, Groups, Roles, Modules and Permissions; exactly 20 permissions, one for each
  module and canonical action; one role, Admin, linked to each of the 20 permissions; one
  group, Administrators, linked to that role; and one user, admin, who is a member of that
  group. The permission map of that user then has the five module names as its keys, each
  with all four actions.
\<close>

theorem seed_result:
  "fst (initializeDatabase h) = Resolved \<and>
   (let db = snd (initializeDatabase h) in
      map m_name (modules db) = [''Users'', ''Groups'', ''Roles'', ''Modules'', ''Permissions''] \<and>
      length (permissions db) = 20 \<and> distinct (map p_id (permissions db)) \<and>
      distinct (map (\<lambda>p. (module_id p, action p)) (permissions db)) \<and>
      set (map (\<lambda>p. (module_id p, action p)) (permissions db)) =
        set [(m_id m, a). m \<leftarrow> modules db, a \<leftarrow> actions] \<and>
      map r_name (roles db) = [''Admin''] \<and>
      length (role_permissions db) = 20 \<and>
      set (map (\<lambda>rp. (rp_role_id rp, rp_permission_id rp)) (role_permissions db)) =
        set [(r_id r, p_id p). r \<leftarrow> roles db, p \<leftarrow> permissions db] \<and>
      map g_name (groups db) = [''Administrators''] \<and>
      map (\<lambda>gr. (gr_group_id gr, gr_role_id gr)) (group_roles db) =
        [(g_id g, r_id r). g \<leftarrow> groups db, r \<leftarrow> roles db] \<and>
      map (\<lambda>u. (u_id u, username u)) (users db) = [(1, ''admin'')] \<and>
      map (\<lambda>ug. (ug_user_id ug, ug_group_id ug)) (user_groups db) =
        [(u_id u, g_id g). u \<leftarrow> users db, g \<leftarrow> groups db] \<and>
      getUserPermissions db 1 =
        Inr (Map.empty
          (''Groups'' \<mapsto> [''create'', ''delete'', ''read'', ''update''],
           ''Modules'' \<mapsto> [''create'', ''delete'', ''read'', ''update''],
           ''Permissions'' \<mapsto> [''create'', ''delete'', ''read'', ''update''],
           ''Roles'' \<mapsto> [''create'', ''delete'', ''read'', ''update''],
           ''Users'' \<mapsto> [''create'', ''delete'', ''read'', ''update''])))"
proof -
  have "set (map (\<lambda>rp. (rp_role_id rp, rp_permission_id rp)) (role_permissions (seeded_store h))) =
        set [(r_id r, p_id p). r \<leftarrow> roles (seeded_store h), p \<leftarrow> permissions (seeded_store h)]"
    by code_simp
  moreover have "set (map (\<lambda>p. (module_id p, action p)) (permissions (seeded_store h))) =
        set [(m_id m, a). m \<leftarrow> modules (seeded_store h), a \<leftarrow> actions]"
    by code_simp
  moreover have "distinct (map (\<lambda>p. (module_id p, action p)) (permissions (seeded_store h)))"
    by code_simp
  moreover have "length (permissions (seeded_store h)) = 20"
    "distinct (map p_id (permissions (seeded_store h)))"
    "length (role_permissions (seeded_store h)) = 20"
    by (simp_all add: seeded_store_def)
  moreover have
    "map m_name (modules (seeded_store h)) = [''Users'', ''Groups'', ''Roles'', ''Modules'', ''Permissions'']"
    "map r_name (roles (seeded_store h)) = [''Admin'']"
    "map g_name (groups (seeded_store h)) = [''Administrators'']"
    "map (\<lambda>u. (u_id u, username u)) (users (seeded_store h)) = [(1, ''admin'')]"
    "map (\<lambda>gr. (gr_group_id gr, gr_role_id gr)) (group_roles (seeded_store h)) =
        [(g_id g, r_id r). g \<leftarrow> groups (seeded_store h), r \<leftarrow> roles (seeded_store h)]"
    "map (\<lambda>ug. (ug_user_id ug, ug_group_id ug)) (user_groups (seeded_store h)) =
        [(u_id u, g_id g). u \<leftarrow> users (seeded_store h), g \<leftarrow> groups (seeded_store h)]"
    by (simp_all add: seeded_store_def)
  ultimately show ?thesis
    unfolding initializeDatabase_seeded Let_def fst_conv snd_conv
    using seeded_permission_map [of h] by blast
qed

section \<open>Assignment: existence checks\<close>

text \<open>
  The handlers verify the counterpart ids by comparing the number of rows that
  \<open>SELECT id FROM t WHERE id IN (...)\<close> returns with the length of the list.
\<close>

lemma length_filter_ids:
  assumes "distinct (map f xs)"
  shows "length (filter (\<lambda>x. f x \<in> set ids) xs) = card (set ids \<inter> f ` set xs)"
proof -
  have "distinct (map f (filter (\<lambda>x. f x \<in> set ids) xs))"
    using assms by (simp add: distinct_map_filter)
  then have "card (set (map f (filter (\<lambda>x. f x \<in> set ids) xs))) = length (filter (\<lambda>x. f x \<in> set ids) xs)"
    using distinct_card by fastforce
  moreover have "set (map f (filter (\<lambda>x. f x \<in> set ids) xs)) = set ids \<inter> f ` set xs"
    by auto
  ultimately show ?thesis by simp
qed

lemma found_all_iff:
  assumes "distinct (map f xs)"
  shows "length (filter (\<lambda>x. f x \<in> set ids) xs) = length ids \<longleftrightarrow>
         distinct ids \<and> set ids \<subseteq> set (map f xs)"
proof
  assume eq: "length (filter (\<lambda>x. f x \<in> set ids) xs) = length ids"
  then have c: "card (set ids \<inter> f ` set xs) = length ids"
    using length_filter_ids [OF assms, of ids] by simp
  have "card (set ids \<inter> f ` set xs) \<le> card (set ids)"
    by (simp add: card_mono)
  with c have ci: "card (set ids) = length ids"
    using card_length [of ids] by simp
  then have d: "distinct ids" by (rule card_distinct)
  have "set ids \<inter> f ` set xs = set ids"
    using c ci by (intro card_subset_eq) auto
  then show "distinct ids \<and> set ids \<subseteq> set (map f xs)" using d by auto
next
  assume h: "distinct ids \<and> set ids \<subseteq> set (map f xs)"
  then have "set ids \<inter> f ` set xs = set ids" by auto
  then show "length (filter (\<lambda>x. f x \<in> set ids) xs) = length ids"
    using length_filter_ids [OF assms, of ids] h by (simp add: distinct_card)
qed

lemma wf_db_users: "wf_db db \<Longrightarrow> distinct (map u_id (users db))"
  by (simp add: wf_db_def)

lemma wf_db_roles: "wf_db db \<Longrightarrow> distinct (map r_id (roles db))"
  by (simp add: wf_db_def)

lemma wf_db_permissions: "wf_db db \<Longrightarrow> distinct (map p_id (permissions db))"
  by (simp add: wf_db_def)

lemma seeded_ids:
  "map g_id (groups (seeded_store h)) = [1]"
  "map u_id (users (seeded_store h)) = [1]"
  "map r_id (roles (seeded_store h)) = [1]"
  "map m_id (modules (seeded_store h)) = [1, 2, 3, 4, 5]"
  by (simp_all add: seeded_store_def)

lemma seeded_permission_ids: "map p_id (permissions (seeded_store h)) = [1..<21]"
  by code_simp

text \<open>
  What a link handler answers before it writes, for an existing owner: with more ids than
  SQLite binds, the \<open>SELECT\<close> is refused; otherwise the counts differ unless the ids are
  distinct and all exist; and with distinct existing ids that fill the limit exactly, the
  \<open>DELETE\<close>, which binds the owner as well, is refused.
\<close>

lemma post_groups_id_users_before_write:
  assumes "distinct (map u_id (users db))" and "groupId \<in> set (map g_id (groups db))"
  shows "max_variable_number < length userIds \<Longrightarrow>
           post_groups_id_users groupId userIds db = (Error 500 ''Database error'', db)"
    and "length userIds \<le> max_variable_number \<Longrightarrow>
         \<not> (distinct userIds \<and> set userIds \<subseteq> set (map u_id (users db))) \<Longrightarrow>
           post_groups_id_users groupId userIds db = (Error 400 ''One or more users not found'', db)"
    and "length userIds = max_variable_number \<Longrightarrow>
         distinct userIds \<Longrightarrow> set userIds \<subseteq> set (map u_id (users db)) \<Longrightarrow>
           post_groups_id_users groupId userIds db =
             (Error 500 ''Failed to clear existing assignments'', db)"
  using assms(2) found_all_iff [OF assms(1), of userIds]
  by (simp_all add: post_groups_id_users_def)

lemma post_groups_id_roles_before_write:
  assumes "distinct (map r_id (roles db))" and "groupId \<in> set (map g_id (groups db))"
  shows "max_variable_number < length roleIds \<Longrightarrow>
           post_groups_id_roles groupId roleIds db = (Error 500 ''Database error'', db)"
    and "length roleIds \<le> max_variable_number \<Longrightarrow>
         \<not> (distinct roleIds \<and> set roleIds \<subseteq> set (map r_id (roles db))) \<Longrightarrow>
           post_groups_id_roles groupId roleIds db = (Error 400 ''One or more roles not found'', db)"
    and "length roleIds = max_variable_number \<Longrightarrow>
         distinct roleIds \<Longrightarrow> set roleIds \<subseteq> set (map r_id (roles db)) \<Longrightarrow>
           post_groups_id_roles groupId roleIds db =
             (Error 500 ''Failed to clear existing assignments'', db)"
  using assms(2) found_all_iff [OF assms(1), of roleIds]
  by (simp_all add: post_groups_id_roles_def)

lemma post_roles_id_permissions_before_write:
  assumes "distinct (map p_id (permissions db))" and "roleId \<in> set (map r_id (roles db))"
  shows "max_variable_number < length permissionIds \<Longrightarrow>
           post_roles_id_permissions roleId permissionIds db = (Error 500 ''Database error'', db)"
    and "length permissionIds \<le> max_variable_number \<Longrightarrow>
         \<not> (distinct permissionIds \<and> set permissionIds \<subseteq> set (map p_id (permissions db))) \<Longrightarrow>
           post_roles_id_permissions roleId permissionIds db =
             (Error 400 ''One or more permissions not found'', db)"
    and "length permissionIds = max_variable_number \<Longrightarrow>
         distinct permissionIds \<Longrightarrow> set permissionIds \<subseteq> set (map p_id (permissions db)) \<Longrightarrow>
           post_roles_id_permissions roleId permissionIds db =
             (Error 500 ''Failed to clear existing assignments'', db)"
  using assms(2) found_all_iff [OF assms(1), of permissionIds]
  by (simp_all add: post_roles_id_permissions_def)

text \<open>
  C4, as the code has it. For each of the three link operations (users to a group, roles
  to a group, permissions to a role): if the owner does not exist the operation fails
  with \<open>404 ... not found\<close>; if the owner exists but one of the given ids references no
  existing row, it fails with \<open>400 One or more ... not found\<close> when the list has at most
  32766 ids, and with \<open>500 Database error\<close> when it has more, since SQLite then refuses
  the statement that looks the ids up. In every one of these cases the store, and with it
  the association table, is left exactly as it was.
\<close>

theorem link_all_or_nothing:
  assumes "wf_db db"
  shows
    "(groupId \<notin> set (map g_id (groups db)) \<longrightarrow>
        post_groups_id_users groupId userIds db = (Error 404 ''Group not found'', db) \<and>
        post_groups_id_roles groupId roleIds db = (Error 404 ''Group not found'', db)) \<and>
     (roleId \<notin> set (map r_id (roles db)) \<longrightarrow>
        post_roles_id_permissions roleId permissionIds db = (Error 404 ''Role not found'', db)) \<and>
     (groupId \<in> set (map g_id (groups db)) \<and> \<not> set userIds \<subseteq> set (map u_id (users db)) \<longrightarrow>
        post_groups_id_users groupId userIds db =
          (if length userIds \<le> max_variable_number then Error 400 ''One or more users not found''
           else Error 500 ''Database error'', db)) \<and>
     (groupId \<in> set (map g_id (groups db)) \<and> \<not> set roleIds \<subseteq> set (map r_id (roles db)) \<longrightarrow>
        post_groups_id_roles groupId roleIds db =
          (if length roleIds \<le> max_variable_number then Error 400 ''One or more roles not found''
           else Error 500 ''Database error'', db)) \<and>
     (roleId \<in> set (map r_id (roles db)) \<and> \<not> set permissionIds \<subseteq> set (map p_id (permissions db)) \<longrightarrow>
        post_roles_id_permissions roleId permissionIds db =
          (if length permissionIds \<le> max_variable_number
           then Error 400 ''One or more permissions not found''
           else Error 500 ''Database error'', db))"
proof -
  have o1: "post_groups_id_users groupId userIds db = (Error 404 ''Group not found'', db)"
    and o2: "post_groups_id_roles groupId roleIds db = (Error 404 ''Group not found'', db)"
    if "groupId \<notin> set (map g_id (groups db))"
    using that by (simp_all add: post_groups_id_users_def post_groups_id_roles_def)
  have o3: "post_roles_id_permissions roleId permissionIds db = (Error 404 ''Role not found'', db)"
    if "roleId \<notin> set (map r_id (roles db))"
    using that by (simp add: post_roles_id_permissions_def)
  have u: "post_groups_id_users groupId userIds db =
          (if length userIds \<le> max_variable_number then Error 400 ''One or more users not found''
           else Error 500 ''Database error'', db)"
    if "groupId \<in> set (map g_id (groups db))" and "\<not> set userIds \<subseteq> set (map u_id (users db))"
    using post_groups_id_users_before_write(1,2) [OF wf_db_users [OF assms] that(1), of userIds] that(2)
    by (cases "length userIds \<le> max_variable_number") simp_all
  have r: "post_groups_id_roles groupId roleIds db =
          (if length roleIds \<le> max_variable_number then Error 400 ''One or more roles not found''
           else Error 500 ''Database error'', db)"
    if "groupId \<in> set (map g_id (groups db))" and "\<not> set roleIds \<subseteq> set (map r_id (roles db))"
    using post_groups_id_roles_before_write(1,2) [OF wf_db_roles [OF assms] that(1), of roleIds] that(2)
    by (cases "length roleIds \<le> max_variable_number") simp_all
  have p: "post_roles_id_permissions roleId permissionIds db =
          (if length permissionIds \<le> max_variable_number
           then Error 400 ''One or more permissions not found''
           else Error 500 ''Database error'', db)"
    if "roleId \<in> set (map r_id (roles db))"
      and "\<not> set permissionIds \<subseteq> set (map p_id (permissions db))"
    using post_roles_id_permissions_before_write(1,2)
      [OF wf_db_permissions [OF assms] that(1), of permissionIds] that(2)
    by (cases "length permissionIds \<le> max_variable_number") simp_all
  show ?thesis using o1 o2 o3 u r p by blast
qed

theorem link_all_or_nothing_witness:
  "wf_db (seeded_store ''x'') \<and>
   post_groups_id_users 2 [1] (seeded_store ''x'') = (Error 404 ''Group not found'', seeded_store ''x'') \<and>
   post_groups_id_roles 2 [1] (seeded_store ''x'') = (Error 404 ''Group not found'', seeded_store ''x'') \<and>
   post_roles_id_permissions 2 [1] (seeded_store ''x'') = (Error 404 ''Role not found'', seeded_store ''x'') \<and>
   post_groups_id_users 1 [1, 7] (seeded_store ''x'') =
     (Error 400 ''One or more users not found'', seeded_store ''x'') \<and>
   post_groups_id_roles 1 [1, 7] (seeded_store ''x'') =
     (Error 400 ''One or more roles not found'', seeded_store ''x'') \<and>
   post_roles_id_permissions 1 [3, 21] (seeded_store ''x'') =
     (Error 400 ''One or more permissions not found'', seeded_store ''x'')"
  using link_all_or_nothing [OF wf_db_seeded, of 2 "''x''" "[1]" "[1]" 2 "[1]"]
    link_all_or_nothing [OF wf_db_seeded, of 1 "''x''" "[1, 7]" "[1, 7]" 1 "[3, 21]"]
    wf_db_seeded [of "''x''"]
  by (simp add: seeded_ids seeded_permission_ids max_variable_number_def)

text \<open>
  The claim as worded promises the not-found error for every list. At the seeded store,
  the ids 1 to 32767 for group 1 pass the request schema and all but the first reference
  no user; the answer is the handler's \<open>500 Database error\<close>.
\<close>

theorem link_not_found_counterexample:
  "1 \<in> set (map g_id (groups (seeded_store ''x''))) \<and>
   valid_id_list [1..<32768] \<and>
   \<not> set [1..<32768] \<subseteq> set (map u_id (users (seeded_store ''x''))) \<and>
   post_groups_id_users 1 [1..<32768] (seeded_store ''x'') =
     (Error 500 ''Database error'', seeded_store ''x'') \<and>
   fst (post_groups_id_users 1 [1..<32768] (seeded_store ''x'')) \<noteq>
     Error 400 ''One or more users not found''"
proof -
  have g: "1 \<in> set (map g_id (groups (seeded_store ''x'')))" by (simp add: seeded_ids)
  have d: "distinct (map u_id (users (seeded_store ''x'')))" by (simp add: seeded_ids)
  have l: "max_variable_number < length [1..<32768]" by (simp add: max_variable_number_def)
  have v: "valid_id_list [1..<32768]" by (simp add: valid_id_list_def)
  have "(2 :: nat) \<in> set [1..<32768]" by simp
  moreover have "(2 :: nat) \<notin> set (map u_id (users (seeded_store ''x'')))"
    by (simp add: seeded_ids)
  ultimately have m: "\<not> set [1..<32768] \<subseteq> set (map u_id (users (seeded_store ''x'')))"
    by blast
  have "post_groups_id_users 1 [1..<32768] (seeded_store ''x'') =
          (Error 500 ''Database error'', seeded_store ''x'')"
    using d g l by (rule post_groups_id_users_before_write(1))
  then show ?thesis using g v m by simp
qed

text \<open>
  C10, as the code has it. In each link operation on an existing owner, a list of
  counterpart ids that contains an id more than once fails and writes nothing: with
  \<open>400 One or more ... not found\<close> when the list has at most 32766 ids, because the rows
  matched are counted against the raw length of the list, and with \<open>500 Database error\<close>
  when it has more. The request schema accepts such a list, and for the shorter lists the
  answer is the one a nonexistent id gets.
\<close>

theorem link_duplicate_ids_rejected:
  assumes "wf_db db" and "\<not> distinct ids"
  shows
    "(groupId \<in> set (map g_id (groups db)) \<longrightarrow>
        post_groups_id_users groupId ids db =
          (if length ids \<le> max_variable_number then Error 400 ''One or more users not found''
           else Error 500 ''Database error'', db) \<and>
        post_groups_id_roles groupId ids db =
          (if length ids \<le> max_variable_number then Error 400 ''One or more roles not found''
           else Error 500 ''Database error'', db)) \<and>
     (roleId \<in> set (map r_id (roles db)) \<longrightarrow>
        post_roles_id_permissions roleId ids db =
          (if length ids \<le> max_variable_number then Error 400 ''One or more permissions not found''
           else Error 500 ''Database error'', db))"
proof -
  have u: "post_groups_id_users groupId ids db =
          (if length ids \<le> max_variable_number then Error 400 ''One or more users not found''
           else Error 500 ''Database error'', db)"
    if "groupId \<in> set (map g_id (groups db))"
    using post_groups_id_users_before_write(1,2) [OF wf_db_users [OF assms(1)] that, of ids] assms(2)
    by (cases "length ids \<le> max_variable_number") simp_all
  have r: "post_groups_id_roles groupId ids db =
          (if length ids \<le> max_variable_number then Error 400 ''One or more roles not found''
           else Error 500 ''Database error'', db)"
    if "groupId \<in> set (map g_id (groups db))"
    using post_groups_id_roles_before_write(1,2) [OF wf_db_roles [OF assms(1)] that, of ids] assms(2)
    by (cases "length ids \<le> max_variable_number") simp_all
  have p: "post_roles_id_permissions roleId ids db =
          (if length ids \<le> max_variable_number then Error 400 ''One or more permissions not found''
           else Error 500 ''Database error'', db)"
    if "roleId \<in> set (map r_id (roles db))"
    using post_roles_id_permissions_before_write(1,2) [OF wf_db_permissions [OF assms(1)] that, of ids]
      assms(2)
    by (cases "length ids \<le> max_variable_number") simp_all
  show ?thesis using u r p by blast
qed

theorem link_duplicate_ids_rejected_witness:
  "wf_db (seeded_store ''x'') \<and> \<not> distinct [1, 1 :: nat] \<and> valid_id_list [1, 1] \<and>
   set [1, 1] \<subseteq> set (map u_id (users (seeded_store ''x''))) \<and>
   post_groups_id_users 1 [1, 1] (seeded_store ''x'') =
     (Error 400 ''One or more users not found'', seeded_store ''x'') \<and>
   post_groups_id_users 1 [1, 1] (seeded_store ''x'') = post_groups_id_users 1 [7] (seeded_store ''x'') \<and>
   post_groups_id_roles 1 [1, 1] (seeded_store ''x'') =
     (Error 400 ''One or more roles not found'', seeded_store ''x'') \<and>
   post_roles_id_permissions 1 [1, 1] (seeded_store ''x'') =
     (Error 400 ''One or more permissions not found'', seeded_store ''x'')"
proof -
  have d: "\<not> distinct [1, 1 :: nat]" by simp
  have g: "1 \<in> set (map g_id (groups (seeded_store ''x'')))" by (simp add: seeded_ids)
  have du: "distinct (map u_id (users (seeded_store ''x'')))" by (simp add: seeded_ids)
  have "post_groups_id_users 1 [7] (seeded_store ''x'') =
        (Error 400 ''One or more users not found'', seeded_store ''x'')"
    by (rule post_groups_id_users_before_write(2) [OF du g])
      (simp_all add: max_variable_number_def seeded_ids)
  then show ?thesis
    using link_duplicate_ids_rejected [OF wf_db_seeded d, of 1 "''x''" 1] wf_db_seeded [of "''x''"]
    by (simp add: seeded_ids valid_id_list_def max_variable_number_def)
qed

text \<open>
  The claim as worded promises \<open>One or more users not found\<close> for every list with a
  repeated existing id. The id 1 given 32767 times passes the request schema; the answer
  is \<open>500 Database error\<close>.
\<close>

theorem link_duplicate_ids_counterexample:
  "1 \<in> set (map g_id (groups (seeded_store ''x''))) \<and>
   valid_id_list (replicate 32767 1) \<and> \<not> distinct (replicate 32767 (1 :: nat)) \<and>
   set (replicate 32767 1) \<subseteq> set (map u_id (users (seeded_store ''x''))) \<and>
   post_groups_id_users 1 (replicate 32767 1) (seeded_store ''x'') =
     (Error 500 ''Database error'', seeded_store ''x'') \<and>
   fst (post_groups_id_users 1 (replicate 32767 1) (seeded_store ''x'')) \<noteq>
     Error 400 ''One or more users not found''"
proof -
  have g: "1 \<in> set (map g_id (groups (seeded_store ''x'')))" by (simp add: seeded_ids)
  have d: "distinct (map u_id (users (seeded_store ''x'')))" by (simp add: seeded_ids)
  have l: "max_variable_number < length (replicate 32767 (1 :: nat))"
    by (simp add: max_variable_number_def)
  have v: "valid_id_list (replicate 32767 1)" by (simp add: valid_id_list_def)
  have nd: "\<not> distinct (replicate 32767 (1 :: nat))"
  proof
    assume "distinct (replicate 32767 (1 :: nat))"
    then have "card (set (replicate 32767 (1 :: nat))) = length (replicate 32767 (1 :: nat))"
      by (rule distinct_card)
    then show False by simp
  qed
  have s: "set (replicate 32767 1) \<subseteq> set (map u_id (users (seeded_store ''x'')))"
    by (simp add: seeded_ids)
  have "post_groups_id_users 1 (replicate 32767 1) (seeded_store ''x'') =
          (Error 500 ''Database error'', seeded_store ''x'')"
    using d g l by (rule post_groups_id_users_before_write(1))
  then show ?thesis using g v nd s by simp
qed

section \<open>Assignment: linking and unlinking users\<close>

lemma insert_user_group_fresh:
  "\<forall>ug \<in> set (user_groups db). \<not> (ug_user_id ug = u \<and> ug_group_id ug = g) \<Longrightarrow>
   (foreign_keys db \<longrightarrow> u \<in> set (map u_id (users db)) \<and> g \<in> set (map g_id (groups db))) \<Longrightarrow>
   insert_user_group u g db =
     (Some (Suc (user_groups_seq db)),
      db\<lparr>user_groups := user_groups db @ [\<lparr>ug_id = Suc (user_groups_seq db), ug_user_id = u, ug_group_id = g\<rparr>],
         user_groups_seq := Suc (user_groups_seq db)\<rparr>)"
  unfolding insert_user_group_def Let_def by auto

lemma run_each_insert_user_group:
  "distinct ids \<Longrightarrow>
   \<forall>ug \<in> set (user_groups db). \<not> (ug_group_id ug = g \<and> ug_user_id ug \<in> set ids) \<Longrightarrow>
   (foreign_keys db \<longrightarrow> set ids \<subseteq> set (map u_id (users db)) \<and> g \<in> set (map g_id (groups db))) \<Longrightarrow>
   \<exists>rows. run_each (\<lambda>u. insert_user_group u g) ids db =
             (False, db\<lparr>user_groups := user_groups db @ rows,
                        user_groups_seq := user_groups_seq db + length ids\<rparr>) \<and>
          map (\<lambda>ug. (ug_user_id ug, ug_group_id ug)) rows = map (\<lambda>u. (u, g)) ids"
proof (induction ids arbitrary: db)
  case Nil
  show ?case by (rule exI [of _ "[]"]) simp
next
  case (Cons x xs)
  let ?row = "\<lparr>ug_id = Suc (user_groups_seq db), ug_user_id = x, ug_group_id = g\<rparr>"
  let ?db1 = "db\<lparr>user_groups := user_groups db @ [?row], user_groups_seq := Suc (user_groups_seq db)\<rparr>"
  have ins: "insert_user_group x g db = (Some (Suc (user_groups_seq db)), ?db1)"
    using Cons.prems by (intro insert_user_group_fresh) auto
  have a1: "distinct xs" using Cons.prems(1) by simp
  have a2: "\<forall>ug \<in> set (user_groups ?db1). \<not> (ug_group_id ug = g \<and> ug_user_id ug \<in> set xs)"
    using Cons.prems(1,2) by auto
  have a3: "foreign_keys ?db1 \<longrightarrow> set xs \<subseteq> set (map u_id (users ?db1)) \<and> g \<in> set (map g_id (groups ?db1))"
    using Cons.prems(3) by auto
  obtain rows where
    r: "run_each (\<lambda>u. insert_user_group u g) xs ?db1 =
          (False, ?db1\<lparr>user_groups := user_groups ?db1 @ rows,
                       user_groups_seq := user_groups_seq ?db1 + length xs\<rparr>)"
    and m: "map (\<lambda>ug. (ug_user_id ug, ug_group_id ug)) rows = map (\<lambda>u. (u, g)) xs"
    using Cons.IH [OF a1 a2 a3] by blast
  have "run_each (\<lambda>u. insert_user_group u g) (x # xs) db =
          (False, db\<lparr>user_groups := user_groups db @ (?row # rows),
                     user_groups_seq := user_groups_seq db + length (x # xs)\<rparr>)"
    by (simp add: ins r)
  moreover have "map (\<lambda>ug. (ug_user_id ug, ug_group_id ug)) (?row # rows) = map (\<lambda>u. (u, g)) (x # xs)"
    using m by simp
  ultimately show ?case by blast
qed

lemma post_groups_id_users_ok:
  assumes "distinct (map u_id (users db))" and "groupId \<in> set (map g_id (groups db))"
    and "distinct userIds" and "set userIds \<subseteq> set (map u_id (users db))"
    and "length userIds < max_variable_number"
  shows "\<exists>db1. post_groups_id_users groupId userIds db =
           (if userIds = [] then No_response else Message ''Users assigned to group successfully'', db1) \<and>
         users db1 = users db \<and> groups db1 = groups db \<and>
         (\<lambda>ug. (ug_user_id ug, ug_group_id ug)) ` set (user_groups db1) =
           ((\<lambda>ug. (ug_user_id ug, ug_group_id ug)) ` set (user_groups db) - set userIds \<times> {groupId})
           \<union> set userIds \<times> {groupId}"
proof -
  let ?db0 = "db\<lparr>user_groups :=
                   filter (\<lambda>ug. \<not> (ug_group_id ug = groupId \<and> ug_user_id ug \<in> set userIds)) (user_groups db)\<rparr>"
  have len: "length (filter (\<lambda>u. u_id u \<in> set userIds) (users db)) = length userIds"
    using found_all_iff [OF assms(1), of userIds] assms(3,4) by simp
  have "\<exists>rows. run_each (\<lambda>u. insert_user_group u groupId) userIds ?db0 =
             (False, ?db0\<lparr>user_groups := user_groups ?db0 @ rows,
                          user_groups_seq := user_groups_seq ?db0 + length userIds\<rparr>) \<and>
          map (\<lambda>ug. (ug_user_id ug, ug_group_id ug)) rows = map (\<lambda>u. (u, groupId)) userIds"
    using assms(1-4) by (intro run_each_insert_user_group) auto
  then obtain rows where
    r: "run_each (\<lambda>u. insert_user_group u groupId) userIds ?db0 =
          (False, ?db0\<lparr>user_groups := user_groups ?db0 @ rows,
                       user_groups_seq := user_groups_seq ?db0 + length userIds\<rparr>)"
    and m: "map (\<lambda>ug. (ug_user_id ug, ug_group_id ug)) rows = map (\<lambda>u. (u, groupId)) userIds"
    by blast
  let ?db1 = "?db0\<lparr>user_groups := user_groups ?db0 @ rows,
                    user_groups_seq := user_groups_seq ?db0 + length userIds\<rparr>"
  have resp: "post_groups_id_users groupId userIds db =
          (if userIds = [] then No_response else Message ''Users assigned to group successfully'', ?db1)"
    using assms(2,5) len r by (simp add: post_groups_id_users_def assigned_def)
  have "(\<lambda>ug. (ug_user_id ug, ug_group_id ug)) ` set rows = set userIds \<times> {groupId}"
  proof -
    have "(\<lambda>ug. (ug_user_id ug, ug_group_id ug)) ` set rows =
          set (map (\<lambda>ug. (ug_user_id ug, ug_group_id ug)) rows)" by simp
    also have "\<dots> = set (map (\<lambda>u. (u, groupId)) userIds)" by (simp only: m)
    also have "\<dots> = set userIds \<times> {groupId}" by auto
    finally show ?thesis .
  qed
  moreover have "(\<lambda>ug. (ug_user_id ug, ug_group_id ug)) `
          set (filter (\<lambda>ug. \<not> (ug_group_id ug = groupId \<and> ug_user_id ug \<in> set userIds)) (user_groups db)) =
        (\<lambda>ug. (ug_user_id ug, ug_group_id ug)) ` set (user_groups db) - set userIds \<times> {groupId}"
    by auto
  ultimately have "(\<lambda>ug. (ug_user_id ug, ug_group_id ug)) ` set (user_groups ?db1) =
           ((\<lambda>ug. (ug_user_id ug, ug_group_id ug)) ` set (user_groups db) - set userIds \<times> {groupId})
           \<union> set userIds \<times> {groupId}"
    by (simp add: image_Un)
  with resp show ?thesis by auto
qed

lemma group_members_pairs:
  "group_members db g = {u. (u, g) \<in> (\<lambda>ug. (ug_user_id ug, ug_group_id ug)) ` set (user_groups db)}"
  by (auto simp: group_members_def)

text \<open>
  C5. For an existing group and a list of distinct existing user ids, \<open>POST
  /groups/:id/users\<close> performed twice in succession leaves every group's membership as
  the first call left it, and the second call answers as the first did; neither call
  answers with the insert failure (a duplicate key), because the pairs are deleted before
  they are inserted. With fewer than 32766 ids both calls succeed and the membership of
  the group is its old membership together with the given users. With 32766 ids or more
  SQLite refuses a statement before anything is written (the \<open>DELETE\<close> at exactly 32766,
  the \<open>SELECT\<close> above), both calls answer 500 and the store is unchanged.
\<close>

theorem link_users_idempotent:
  assumes "wf_db db" and "groupId \<in> set (map g_id (groups db))"
    and "distinct userIds" and "set userIds \<subseteq> set (map u_id (users db))"
  shows "let r1 = fst (post_groups_id_users groupId userIds db);
             db1 = snd (post_groups_id_users groupId userIds db);
             r2 = fst (post_groups_id_users groupId userIds db1);
             db2 = snd (post_groups_id_users groupId userIds db1)
         in (\<forall>g. group_members db2 g = group_members db1 g) \<and>
            r2 = r1 \<and>
            r1 \<noteq> Error 500 ''Failed to assign users to group'' \<and>
            r2 \<noteq> Error 500 ''Failed to assign users to group'' \<and>
            (if length userIds < max_variable_number
             then r1 = (if userIds = [] then No_response
                        else Message ''Users assigned to group successfully'') \<and>
                  group_members db1 groupId = group_members db groupId \<union> set userIds
             else r1 = (if length userIds = max_variable_number
                        then Error 500 ''Failed to clear existing assignments''
                        else Error 500 ''Database error'') \<and>
                  db1 = db)"
proof -
  have d: "distinct (map u_id (users db))" using assms(1) by (rule wf_db_users)
  consider (lt) "length userIds < max_variable_number"
    | (eq) "length userIds = max_variable_number"
    | (gt) "max_variable_number < length userIds"
    by linarith
  then show ?thesis
  proof cases
    case lt
    obtain db1 where
      r1: "post_groups_id_users groupId userIds db =
             (if userIds = [] then No_response else Message ''Users assigned to group successfully'', db1)"
      and u1: "users db1 = users db" and g1: "groups db1 = groups db"
      and p1: "(\<lambda>ug. (ug_user_id ug, ug_group_id ug)) ` set (user_groups db1) =
             ((\<lambda>ug. (ug_user_id ug, ug_group_id ug)) ` set (user_groups db) - set userIds \<times> {groupId})
             \<union> set userIds \<times> {groupId}"
      using post_groups_id_users_ok [OF d assms(2,3,4) lt] by blast
    obtain db2 where
      r2: "post_groups_id_users groupId userIds db1 =
             (if userIds = [] then No_response else Message ''Users assigned to group successfully'', db2)"
      and p2: "(\<lambda>ug. (ug_user_id ug, ug_group_id ug)) ` set (user_groups db2) =
             ((\<lambda>ug. (ug_user_id ug, ug_group_id ug)) ` set (user_groups db1) - set userIds \<times> {groupId})
             \<union> set userIds \<times> {groupId}"
      using post_groups_id_users_ok [of db1 groupId userIds] d assms(2,3,4) lt u1 g1 by auto
    have same: "(\<lambda>ug. (ug_user_id ug, ug_group_id ug)) ` set (user_groups db2) =
          (\<lambda>ug. (ug_user_id ug, ug_group_id ug)) ` set (user_groups db1)"
      unfolding p2 unfolding p1 by blast
    have m1: "group_members db1 groupId = group_members db groupId \<union> set userIds"
      unfolding group_members_pairs p1 by blast
    have m2: "\<forall>g. group_members db2 g = group_members db1 g"
      unfolding group_members_pairs same by simp
    show ?thesis
      unfolding Let_def r1 r2 fst_conv snd_conv using lt m1 m2 by simp
  next
    case eq
    have r1: "post_groups_id_users groupId userIds db =
                (Error 500 ''Failed to clear existing assignments'', db)"
      using d assms(2) eq assms(3,4) by (rule post_groups_id_users_before_write(3))
    show ?thesis
      unfolding Let_def r1 fst_conv snd_conv using eq by simp
  next
    case gt
    have r1: "post_groups_id_users groupId userIds db = (Error 500 ''Database error'', db)"
      using d assms(2) gt by (rule post_groups_id_users_before_write(1))
    show ?thesis
      unfolding Let_def r1 fst_conv snd_conv using gt by simp
  qed
qed

theorem link_users_idempotent_witness:
  "wf_db (seeded_store ''x'') \<and> 1 \<in> set (map g_id (groups (seeded_store ''x''))) \<and>
   distinct [1 :: nat] \<and> set [1] \<subseteq> set (map u_id (users (seeded_store ''x''))) \<and>
   fst (post_groups_id_users 1 [1] (seeded_store ''x'')) = Message ''Users assigned to group successfully'' \<and>
   fst (post_groups_id_users 1 [1] (snd (post_groups_id_users 1 [1] (seeded_store ''x'')))) =
     Message ''Users assigned to group successfully'' \<and>
   group_members (snd (post_groups_id_users 1 [1] (seeded_store ''x''))) 1 = {1} \<and>
   group_members (snd (post_groups_id_users 1 [1] (snd (post_groups_id_users 1 [1] (seeded_store ''x''))))) 1 = {1}"
proof -
  have g: "1 \<in> set (map g_id (groups (seeded_store ''x'')))" by (simp add: seeded_ids)
  have s: "set [1] \<subseteq> set (map u_id (users (seeded_store ''x'')))" by (simp add: seeded_ids)
  have m: "group_members (seeded_store ''x'') 1 = {1}" by (simp add: group_members_def seeded_store_def)
  have d: "distinct [1 :: nat]" by simp
  show ?thesis
    using link_users_idempotent [OF wf_db_seeded g d s] wf_db_seeded [of "''x''"] g s m
    by (auto simp: Let_def max_variable_number_def)
qed

text \<open>
  C6, as the code has it. For an existing group and fewer than 32766 user ids, \<open>DELETE
  /groups/:id/users\<close> succeeds: it removes exactly the rows of \<open>user_groups\<close> that pair the
  group with one of the given users, leaves every other row and table alone, and reports
  as \<open>removedCount\<close> the number of rows it removed; when none of the given users is a
  member, that number is zero and the store is unchanged. With 32766 ids or more the
  statement, which binds the group id as well, exceeds the number of variables SQLite
  accepts: the answer is \<open>500 Failed to remove users from group\<close> and no row is removed.
\<close>

theorem unlink_users_removes_present:
  assumes "groupId \<in> set (map g_id (groups db))"
  shows "let r = fst (delete_groups_id_users groupId userIds db);
             db' = snd (delete_groups_id_users groupId userIds db);
             n = length (filter (\<lambda>ug. ug_group_id ug = groupId \<and> ug_user_id ug \<in> set userIds) (user_groups db))
         in if length userIds < max_variable_number
            then r = Removed ''Users removed from group successfully'' n \<and>
                 db' = db\<lparr>user_groups := user_groups db'\<rparr> \<and>
                 set (user_groups db') =
                   set (user_groups db) - {ug. ug_group_id ug = groupId \<and> ug_user_id ug \<in> set userIds} \<and>
                 length (user_groups db) = n + length (user_groups db') \<and>
                 group_members db' groupId = group_members db groupId - set userIds \<and>
                 (group_members db groupId \<inter> set userIds = {} \<longrightarrow> n = 0 \<and> db' = db)
            else r = Error 500 ''Failed to remove users from group'' \<and> db' = db"
proof (cases "length userIds < max_variable_number")
  case True
  let ?P = "\<lambda>ug. ug_group_id ug = groupId \<and> ug_user_id ug \<in> set userIds"
  let ?db' = "db\<lparr>user_groups := filter (\<lambda>ug. \<not> ?P ug) (user_groups db)\<rparr>"
  have r: "delete_groups_id_users groupId userIds db =
             (Removed ''Users removed from group successfully'' (length (filter ?P (user_groups db))), ?db')"
    using assms True by (simp add: delete_groups_id_users_def)
  have s: "set (user_groups ?db') = set (user_groups db) - {ug. ?P ug}"
    by auto
  have l: "length (user_groups db) = length (filter ?P (user_groups db)) + length (user_groups ?db')"
    using sum_length_filter_compl [of ?P "user_groups db"] by simp
  have m: "group_members ?db' groupId = group_members db groupId - set userIds"
    by (auto simp: group_members_def)
  have z: "group_members db groupId \<inter> set userIds = {} \<longrightarrow>
           length (filter ?P (user_groups db)) = 0 \<and> ?db' = db"
  proof
    assume "group_members db groupId \<inter> set userIds = {}"
    then have none: "\<forall>ug \<in> set (user_groups db). \<not> ?P ug"
      by (auto simp: group_members_def)
    then show "length (filter ?P (user_groups db)) = 0 \<and> ?db' = db"
      by (simp add: filter_empty_conv filter_id_conv)
  qed
  have u: "?db' = db\<lparr>user_groups := user_groups ?db'\<rparr>" by simp
  show ?thesis
    unfolding Let_def r fst_conv snd_conv if_P [OF True]
    by (intro conjI refl u s l m z)
next
  case False
  have r: "delete_groups_id_users groupId userIds db =
             (Error 500 ''Failed to remove users from group'', db)"
    using assms False by (simp add: delete_groups_id_users_def)
  show ?thesis
    unfolding Let_def r fst_conv snd_conv if_not_P [OF False]
    by (intro conjI refl)
qed

theorem unlink_users_removes_present_witness:
  "1 \<in> set (map g_id (groups (seeded_store ''x''))) \<and>
   delete_groups_id_users 1 [7] (seeded_store ''x'') =
     (Removed ''Users removed from group successfully'' 0, seeded_store ''x'') \<and>
   fst (delete_groups_id_users 1 [1, 7] (seeded_store ''x'')) =
     Removed ''Users removed from group successfully'' 1 \<and>
   user_groups (snd (delete_groups_id_users 1 [1, 7] (seeded_store ''x''))) = []"
proof -
  have g: "1 \<in> set (map g_id (groups (seeded_store ''x'')))" by (simp add: seeded_ids)
  have ug: "user_groups (seeded_store ''x'') = [\<lparr>ug_id = 1, ug_user_id = 1, ug_group_id = 1\<rparr>]"
    by (simp add: seeded_store_def)
  have m: "group_members (seeded_store ''x'') 1 = {1}"
    by (simp add: group_members_def ug)
  have a: "fst (delete_groups_id_users 1 [7] (seeded_store ''x'')) =
             Removed ''Users removed from group successfully'' 0 \<and>
           snd (delete_groups_id_users 1 [7] (seeded_store ''x'')) = seeded_store ''x''"
    using unlink_users_removes_present [OF g, of "[7]"] m
    by (simp add: Let_def ug max_variable_number_def)
  have b: "fst (delete_groups_id_users 1 [1, 7] (seeded_store ''x'')) =
             Removed ''Users removed from group successfully'' 1 \<and>
           set (user_groups (snd (delete_groups_id_users 1 [1, 7] (seeded_store ''x'')))) = {}"
    using unlink_users_removes_present [OF g, of "[1, 7]"]
    by (simp add: Let_def ug max_variable_number_def)
  show ?thesis using g a b by (simp add: prod_eq_iff)
qed

text \<open>
  The claim as worded promises success for every list of ids. At the seeded store, whose
  group 1 has user 1 as its only member, the ids 1 to 32766 contain a member, and the ids
  2 to 32767 contain none; both lists pass the request schema, and for both the answer is
  \<open>500 Failed to remove users from group\<close>, with user 1 still a member.
\<close>

theorem unlink_users_counterexample:
  "1 \<in> set (map g_id (groups (seeded_store ''x''))) \<and>
   group_members (seeded_store ''x'') 1 = {1} \<and>
   valid_id_list [1..<32767] \<and> distinct [1..<32767] \<and> 1 \<in> set [1..<32767] \<and>
   delete_groups_id_users 1 [1..<32767] (seeded_store ''x'') =
     (Error 500 ''Failed to remove users from group'', seeded_store ''x'') \<and>
   valid_id_list (map Suc [1..<32767]) \<and> distinct (map Suc [1..<32767]) \<and>
   group_members (seeded_store ''x'') 1 \<inter> set (map Suc [1..<32767]) = {} \<and>
   delete_groups_id_users 1 (map Suc [1..<32767]) (seeded_store ''x'') =
     (Error 500 ''Failed to remove users from group'', seeded_store ''x'') \<and>
   fst (delete_groups_id_users 1 (map Suc [1..<32767]) (seeded_store ''x'')) \<noteq>
     Removed ''Users removed from group successfully'' 0"
proof -
  have g: "1 \<in> set (map g_id (groups (seeded_store ''x'')))" by (simp add: seeded_ids)
  have m: "group_members (seeded_store ''x'') 1 = {1}"
    by (simp add: group_members_def seeded_store_def)
  have e: "delete_groups_id_users 1 ids (seeded_store ''x'') =
             (Error 500 ''Failed to remove users from group'', seeded_store ''x'')"
    if "length ids = 32766" for ids
    using g that by (simp add: delete_groups_id_users_def max_variable_number_def)
  have v1: "valid_id_list [1..<32767]" by (simp add: valid_id_list_def)
  have d1: "distinct [1..<32767]" by simp
  have i1: "1 \<in> set [1..<32767]" by simp
  have r1: "delete_groups_id_users 1 [1..<32767] (seeded_store ''x'') =
              (Error 500 ''Failed to remove users from group'', seeded_store ''x'')"
    by (rule e) simp
  have v2: "valid_id_list (map Suc [1..<32767])" by (simp add: valid_id_list_def)
  have d2: "distinct (map Suc [1..<32767])" by (simp add: distinct_map)
  have n2: "group_members (seeded_store ''x'') 1 \<inter> set (map Suc [1..<32767]) = {}"
    unfolding m by auto
  have r2: "delete_groups_id_users 1 (map Suc [1..<32767]) (seeded_store ''x'') =
              (Error 500 ''Failed to remove users from group'', seeded_store ''x'')"
    by (rule e) simp
  have f2: "fst (delete_groups_id_users 1 (map Suc [1..<32767]) (seeded_store ''x'')) \<noteq>
              Removed ''Users removed from group successfully'' 0"
    unfolding r2 by simp
  show ?thesis by (intro conjI g m v1 d1 i1 r1 v2 d2 n2 r2 f2)
qed

section \<open>Creating entities\<close>

lemma post_users_rows:
  "let db' = snd (post_users un em ph db)
   in db' = db\<lparr>users := users db', users_seq := users_seq db'\<rparr> \<and>
      (users db' = users db \<or> users db' = users db @ [last (users db')])"
  by (simp add: post_users_def insert_user_def Let_def split: option.split)

lemma post_register_rows:
  "let db' = snd (post_register un em ph db)
   in db' = db\<lparr>users := users db', users_seq := users_seq db'\<rparr> \<and>
      (users db' = users db \<or> users db' = users db @ [last (users db')])"
  by (simp add: post_register_def insert_user_def Let_def)

lemma post_groups_rows:
  "let db' = snd (post_groups n d db)
   in db' = db\<lparr>groups := groups db', groups_seq := groups_seq db'\<rparr> \<and>
      (groups db' = groups db \<or> groups db' = groups db @ [last (groups db')])"
  by (simp add: post_groups_def insert_group_def Let_def)

lemma post_roles_rows:
  "let db' = snd (post_roles n d db)
   in db' = db\<lparr>roles := roles db', roles_seq := roles_seq db'\<rparr> \<and>
      (roles db' = roles db \<or> roles db' = roles db @ [last (roles db')])"
  by (simp add: post_roles_def insert_role_def Let_def)

lemma post_permissions_rows:
  "let db' = snd (post_permissions a mid db)
   in db' = db\<lparr>permissions := permissions db', permissions_seq := permissions_seq db'\<rparr> \<and>
      (permissions db' = permissions db \<or> permissions db' = permissions db @ [last (permissions db')])"
  by (simp add: post_permissions_def insert_permission_def Let_def)

lemma insert_permission_fresh:
  "\<forall>p \<in> set (permissions db). \<not> (action p = a \<and> module_id p = mid) \<Longrightarrow>
   (foreign_keys db \<longrightarrow> mid \<in> set (map m_id (modules db))) \<Longrightarrow>
   insert_permission a mid db =
     (Some (Suc (permissions_seq db)),
      db\<lparr>permissions := permissions db @ [\<lparr>p_id = Suc (permissions_seq db), action = a, module_id = mid\<rparr>],
         permissions_seq := Suc (permissions_seq db)\<rparr>)"
  unfolding insert_permission_def Let_def by auto

lemma fold_insert_permission:
  "distinct as \<Longrightarrow>
   \<forall>p \<in> set (permissions db). \<not> (module_id p = mid \<and> action p \<in> set as) \<Longrightarrow>
   (foreign_keys db \<longrightarrow> mid \<in> set (map m_id (modules db))) \<Longrightarrow>
   \<exists>rows. fold (\<lambda>a d. snd (insert_permission a mid d)) as db =
             db\<lparr>permissions := permissions db @ rows,
                permissions_seq := permissions_seq db + length as\<rparr> \<and>
          map (\<lambda>p. (action p, module_id p)) rows = map (\<lambda>a. (a, mid)) as"
proof (induction as arbitrary: db)
  case Nil
  show ?case by (rule exI [of _ "[]"]) simp
next
  case (Cons x xs)
  let ?row = "\<lparr>p_id = Suc (permissions_seq db), action = x, module_id = mid\<rparr>"
  let ?db1 = "db\<lparr>permissions := permissions db @ [?row], permissions_seq := Suc (permissions_seq db)\<rparr>"
  have ins: "insert_permission x mid db = (Some (Suc (permissions_seq db)), ?db1)"
    using Cons.prems by (intro insert_permission_fresh) auto
  have a1: "distinct xs" using Cons.prems(1) by simp
  have a2: "\<forall>p \<in> set (permissions ?db1). \<not> (module_id p = mid \<and> action p \<in> set xs)"
    using Cons.prems(1,2) by auto
  have a3: "foreign_keys ?db1 \<longrightarrow> mid \<in> set (map m_id (modules ?db1))"
    using Cons.prems(3) by auto
  obtain rows where
    r: "fold (\<lambda>a d. snd (insert_permission a mid d)) xs ?db1 =
          ?db1\<lparr>permissions := permissions ?db1 @ rows,
               permissions_seq := permissions_seq ?db1 + length xs\<rparr>"
    and m: "map (\<lambda>p. (action p, module_id p)) rows = map (\<lambda>a. (a, mid)) xs"
    using Cons.IH [OF a1 a2 a3] by blast
  have "fold (\<lambda>a d. snd (insert_permission a mid d)) (x # xs) db =
          db\<lparr>permissions := permissions db @ (?row # rows),
             permissions_seq := permissions_seq db + length (x # xs)\<rparr>"
    by (simp add: ins r)
  moreover have "map (\<lambda>p. (action p, module_id p)) (?row # rows) = map (\<lambda>a. (a, mid)) (x # xs)"
    using m by simp
  ultimately show ?case by blast
qed
lemma rows_of_pairs:
  assumes "map (\<lambda>p. (action p, module_id p)) rows = map (\<lambda>a. (a, mid)) as"
  shows "map action rows = as" and "\<forall>p \<in> set rows. module_id p = mid" and "length rows = length as"
proof -
  have "map fst (map (\<lambda>p. (action p, module_id p)) rows) = map fst (map (\<lambda>a. (a, mid)) as)"
    by (simp only: assms)
  then show "map action rows = as" by (simp add: comp_def)
  have "map snd (map (\<lambda>p. (action p, module_id p)) rows) = map snd (map (\<lambda>a. (a, mid)) as)"
    by (simp only: assms)
  then have "map module_id rows = map (\<lambda>a. mid) as" by (simp add: comp_def)
  then have "set (map module_id rows) \<subseteq> {mid}" by auto
  then show "\<forall>p \<in> set rows. module_id p = mid" by auto
  show "length rows = length as" using assms by (metis length_map)
qed

lemma post_modules_fresh:
  assumes "wf_db db" and "\<forall>m \<in> set (modules db). m_name m \<noteq> name"
  shows "\<exists>rows. post_modules name description db =
           (Created (Suc (modules_seq db)) ''Module created successfully with default permissions'',
            db\<lparr>modules := modules db @
                   [\<lparr>m_id = Suc (modules_seq db), m_name = name, m_description = or_null description\<rparr>],
               modules_seq := Suc (modules_seq db),
               permissions := permissions db @ rows,
               permissions_seq := permissions_seq db + 4\<rparr>) \<and>
         map (\<lambda>p. (action p, module_id p)) rows = map (\<lambda>a. (a, Suc (modules_seq db))) actions"
proof -
  let ?mid = "Suc (modules_seq db)"
  let ?db1 = "db\<lparr>modules := modules db @ [\<lparr>m_id = ?mid, m_name = name, m_description = or_null description\<rparr>],
                  modules_seq := ?mid\<rparr>"
  have ins: "insert_module name (or_null description) db = (Some ?mid, ?db1)"
    using assms(2) by (simp add: insert_module_def Let_def)
  have d: "distinct actions" by (simp add: actions_def)
  have "\<forall>p \<in> set (permissions db). module_id p \<le> modules_seq db"
    using assms(1) by (simp add: wf_db_def)
  then have a2: "\<forall>p \<in> set (permissions ?db1). \<not> (module_id p = ?mid \<and> action p \<in> set actions)"
    by auto
  have a3: "foreign_keys ?db1 \<longrightarrow> ?mid \<in> set (map m_id (modules ?db1))" by simp
  obtain rows where
    r: "fold (\<lambda>a d. snd (insert_permission a ?mid d)) actions ?db1 =
          ?db1\<lparr>permissions := permissions ?db1 @ rows,
               permissions_seq := permissions_seq ?db1 + length actions\<rparr>"
    and m: "map (\<lambda>p. (action p, module_id p)) rows = map (\<lambda>a. (a, ?mid)) actions"
    using fold_insert_permission [OF d a2 a3] by blast
  have l: "length actions = 4" by (simp add: actions_def)
  have "post_modules name description db =
           (Created ?mid ''Module created successfully with default permissions'',
            db\<lparr>modules := modules db @ [\<lparr>m_id = ?mid, m_name = name, m_description = or_null description\<rparr>],
               modules_seq := ?mid,
               permissions := permissions db @ rows,
               permissions_seq := permissions_seq db + 4\<rparr>)"
    using assms(2) by (simp add: post_modules_def ins r l)
  with m show ?thesis by blast
qed

text \<open>
  C7. A module creation that succeeds (\<open>POST /modules\<close> with a name no module has) adds
  the module and exactly four permission rows scoped to it, one for each of create, read,
  update and delete, and nothing else: the permissions of the other modules and all other
  tables are as before. Every other creating route (\<open>POST /users\<close>, \<open>POST /register\<close>,
  \<open>POST /groups\<close>, \<open>POST /roles\<close>, \<open>POST /permissions\<close>) changes nothing but its own
  table, to which it appends at most the one created row.
\<close>

theorem module_creation_four_permissions:
  "(wf_db db \<and> name \<notin> set (map m_name (modules db)) \<longrightarrow>
      (let mid = Suc (modules_seq db); db' = snd (post_modules name description db)
       in fst (post_modules name description db) =
            Created mid ''Module created successfully with default permissions'' \<and>
          modules db' = modules db @ [\<lparr>m_id = mid, m_name = name, m_description = or_null description\<rparr>] \<and>
          map action (filter (\<lambda>p. module_id p = mid) (permissions db')) =
            [''create'', ''read'', ''update'', ''delete''] \<and>
          filter (\<lambda>p. module_id p \<noteq> mid) (permissions db') = permissions db \<and>
          length (permissions db') = length (permissions db) + 4 \<and>
          db' = db\<lparr>modules := modules db', modules_seq := modules_seq db',
                    permissions := permissions db', permissions_seq := permissions_seq db'\<rparr>)) \<and>
   (let db' = snd (post_users un em ph db)
    in db' = db\<lparr>users := users db', users_seq := users_seq db'\<rparr> \<and>
       (users db' = users db \<or> users db' = users db @ [last (users db')])) \<and>
   (let db' = snd (post_register un em rh db)
    in db' = db\<lparr>users := users db', users_seq := users_seq db'\<rparr> \<and>
       (users db' = users db \<or> users db' = users db @ [last (users db')])) \<and>
   (let db' = snd (post_groups n d db)
    in db' = db\<lparr>groups := groups db', groups_seq := groups_seq db'\<rparr> \<and>
       (groups db' = groups db \<or> groups db' = groups db @ [last (groups db')])) \<and>
   (let db' = snd (post_roles n d db)
    in db' = db\<lparr>roles := roles db', roles_seq := roles_seq db'\<rparr> \<and>
       (roles db' = roles db \<or> roles db' = roles db @ [last (roles db')])) \<and>
   (let db' = snd (post_permissions a m db)
    in db' = db\<lparr>permissions := permissions db', permissions_seq := permissions_seq db'\<rparr> \<and>
       (permissions db' = permissions db \<or> permissions db' = permissions db @ [last (permissions db')]))"
proof -
  have "let mid = Suc (modules_seq db); db' = snd (post_modules name description db)
       in fst (post_modules name description db) =
            Created mid ''Module created successfully with default permissions'' \<and>
          modules db' = modules db @ [\<lparr>m_id = mid, m_name = name, m_description = or_null description\<rparr>] \<and>
          map action (filter (\<lambda>p. module_id p = mid) (permissions db')) =
            [''create'', ''read'', ''update'', ''delete''] \<and>
          filter (\<lambda>p. module_id p \<noteq> mid) (permissions db') = permissions db \<and>
          length (permissions db') = length (permissions db) + 4 \<and>
          db' = db\<lparr>modules := modules db', modules_seq := modules_seq db',
                    permissions := permissions db', permissions_seq := permissions_seq db'\<rparr>"
    if wf: "wf_db db" and fresh: "name \<notin> set (map m_name (modules db))"
  proof -
    let ?mid = "Suc (modules_seq db)"
    have f: "\<forall>m \<in> set (modules db). m_name m \<noteq> name" using fresh by auto
    obtain rows where
      r: "post_modules name description db =
           (Created ?mid ''Module created successfully with default permissions'',
            db\<lparr>modules := modules db @
                   [\<lparr>m_id = ?mid, m_name = name, m_description = or_null description\<rparr>],
               modules_seq := ?mid,
               permissions := permissions db @ rows,
               permissions_seq := permissions_seq db + 4\<rparr>)"
      and m: "map (\<lambda>p. (action p, module_id p)) rows = map (\<lambda>a. (a, ?mid)) actions"
      using post_modules_fresh [OF wf f] by blast
    have old: "\<forall>p \<in> set (permissions db). module_id p \<noteq> ?mid"
      using wf by (auto simp: wf_db_def)
    have new: "\<forall>p \<in> set rows. module_id p = ?mid" using rows_of_pairs(2) [OF m] .
    have acts: "map action rows = [''create'', ''read'', ''update'', ''delete'']"
      using rows_of_pairs(1) [OF m] by (simp add: actions_def)
    have len: "length rows = 4" using rows_of_pairs(3) [OF m] by (simp add: actions_def)
    have f1: "filter (\<lambda>p. module_id p = ?mid) (permissions db) = []"
      "filter (\<lambda>p. module_id p = ?mid) rows = rows"
      using old new by (simp_all add: filter_empty_conv filter_id_conv)
    have f2: "filter (\<lambda>p. module_id p \<noteq> ?mid) (permissions db) = permissions db"
      "filter (\<lambda>p. module_id p \<noteq> ?mid) rows = []"
      using old new by (simp_all add: filter_empty_conv filter_id_conv)
    show ?thesis
      unfolding Let_def r fst_conv snd_conv
      by (simp add: f1 f2 acts len)
  qed
  then show ?thesis
    using post_users_rows [of un em ph db] post_register_rows [of un em rh db]
      post_groups_rows [of n d db] post_roles_rows [of n d db] post_permissions_rows [of a m db]
    by blast
qed

theorem module_creation_four_permissions_witness:
  "wf_db (seeded_store ''x'') \<and> ''Billing'' \<notin> set (map m_name (modules (seeded_store ''x''))) \<and>
   fst (post_modules ''Billing'' None (seeded_store ''x'')) =
     Created 6 ''Module created successfully with default permissions'' \<and>
   map action (filter (\<lambda>p. module_id p = 6) (permissions (snd (post_modules ''Billing'' None (seeded_store ''x''))))) =
     [''create'', ''read'', ''update'', ''delete''] \<and>
   length (permissions (snd (post_modules ''Billing'' None (seeded_store ''x'')))) = 24"
proof -
  have fresh: "''Billing'' \<notin> set (map m_name (modules (seeded_store ''x'')))"
    by (simp add: seeded_store_def)
  have s: "modules_seq (seeded_store ''x'') = 5" "length (permissions (seeded_store ''x'')) = 20"
    by (simp_all add: seeded_store_def)
  show ?thesis
    using module_creation_four_permissions [of "seeded_store ''x''" "''Billing''" None]
      wf_db_seeded [of "''x''"] fresh s
    by (simp add: Let_def)
qed

section \<open>Deleting a user\<close>

lemma validateId_positive: "0 < n \<Longrightarrow> validateId (Some (int n)) next db = next n db"
  by (simp add: validateId_def)

lemma delete_user_row_users: "users (delete_user_row T db) = filter (\<lambda>u. u_id u \<noteq> T) (users db)"
  by (simp add: delete_user_row_def Let_def)

text \<open>
  C8, as the code has it. For every caller and every existing user id T,
  \<open>DELETE /users/:id\<close> with T the caller's own id is rejected and leaves the store as it
  was, whatever permissions the caller holds: with \<open>400 Cannot delete your own account\<close>
  when the caller holds delete on Users, and with \<open>403 Permission denied\<close> otherwise,
  because \<open>checkPermission\<close> runs before the handler. For T different from the caller's
  id and a caller who holds delete on Users, the deletion succeeds and the user's row is
  gone.
\<close>

theorem user_delete_route:
  assumes "wf_db db" and "T \<in> set (map u_id (users db))"
  shows
    "(has_path db C ''Users'' ''delete'' \<and> T = C \<longrightarrow>
        route_delete_users_id C (Some (int T)) db = (Error 400 ''Cannot delete your own account'', db)) \<and>
     (\<not> has_path db C ''Users'' ''delete'' \<longrightarrow>
        route_delete_users_id C (Some (int T)) db = (Error 403 ''Permission denied: delete on Users'', db)) \<and>
     (has_path db C ''Users'' ''delete'' \<and> T \<noteq> C \<longrightarrow>
        fst (route_delete_users_id C (Some (int T)) db) = Message ''User deleted successfully'' \<and>
        users (snd (route_delete_users_id C (Some (int T)) db)) = filter (\<lambda>u. u_id u \<noteq> T) (users db) \<and>
        T \<notin> set (map u_id (users (snd (route_delete_users_id C (Some (int T)) db)))))"
proof -
  have pos: "0 < T" using assms by (auto simp: wf_db_def)
  have denied: "route_delete_users_id C (Some (int T)) db =
                  (Error 403 ''Permission denied: delete on Users'', db)"
    if "\<not> has_path db C ''Users'' ''delete''"
    using that by (simp add: route_delete_users_id_def checkPermission_def permission_count_zero)
  have granted: "route_delete_users_id C (Some (int T)) db = delete_users_id C T db"
    if "has_path db C ''Users'' ''delete''"
    using that pos
    by (simp add: route_delete_users_id_def checkPermission_def permission_count_zero validateId_positive)
  have self: "delete_users_id C T db = (Error 400 ''Cannot delete your own account'', db)" if "T = C"
    using that assms(2) by (simp add: delete_users_id_def)
  have other: "delete_users_id C T db = (Message ''User deleted successfully'', delete_user_row T db)"
    if "T \<noteq> C"
    using that assms(2) by (simp add: delete_users_id_def)
  show ?thesis
    using denied granted self other by (auto simp: delete_user_row_users)
qed

theorem user_delete_route_witness:
  "wf_db (snd (post_register ''bob'' ''bob@example.com'' ''y'' (seeded_store ''x''))) \<and>
   map u_id (users (snd (post_register ''bob'' ''bob@example.com'' ''y'' (seeded_store ''x'')))) = [1, 2] \<and>
   has_path (snd (post_register ''bob'' ''bob@example.com'' ''y'' (seeded_store ''x''))) 1 ''Users'' ''delete'' \<and>
   \<not> has_path (snd (post_register ''bob'' ''bob@example.com'' ''y'' (seeded_store ''x''))) 2 ''Users'' ''delete'' \<and>
   fst (route_delete_users_id 1 (Some 1) (snd (post_register ''bob'' ''bob@example.com'' ''y'' (seeded_store ''x'')))) =
     Error 400 ''Cannot delete your own account'' \<and>
   fst (route_delete_users_id 2 (Some 1) (snd (post_register ''bob'' ''bob@example.com'' ''y'' (seeded_store ''x'')))) =
     Error 403 ''Permission denied: delete on Users'' \<and>
   fst (route_delete_users_id 1 (Some 2) (snd (post_register ''bob'' ''bob@example.com'' ''y'' (seeded_store ''x'')))) =
     Message ''User deleted successfully'' \<and>
   map u_id (users (snd (route_delete_users_id 1 (Some 2)
     (snd (post_register ''bob'' ''bob@example.com'' ''y'' (seeded_store ''x'')))))) = [1]"
proof -
  let ?db = "snd (post_register ''bob'' ''bob@example.com'' ''y'' (seeded_store ''x''))"
  have wf: "wf_db ?db" by code_simp
  have ids: "map u_id (users ?db) = [1, 2]" by code_simp
  have t1: "1 \<in> set (map u_id (users ?db))" and t2: "2 \<in> set (map u_id (users ?db))"
    by (simp_all add: ids)
  have yes: "has_path ?db 1 ''Users'' ''delete''" by code_simp
  have no: "\<not> has_path ?db 2 ''Users'' ''delete''" by code_simp
  have f: "map u_id (filter (\<lambda>u. u_id u \<noteq> 2) (users ?db)) = [1]" by code_simp
  show ?thesis
    using user_delete_route [OF wf t1, of 1] user_delete_route [OF wf t1, of 2]
      user_delete_route [OF wf t2, of 1] wf ids yes no f
    by simp
qed

text \<open>
  The claim as worded promises the self-deletion error to every caller. A registered user
  who is in no group holds no permission, and their request to delete their own account
  is answered by \<open>checkPermission\<close>.
\<close>

theorem user_delete_self_counterexample:
  "2 \<in> set (map u_id (users (snd (post_register ''bob'' ''bob@example.com'' ''y'' (seeded_store ''x''))))) \<and>
   route_delete_users_id 2 (Some 2) (snd (post_register ''bob'' ''bob@example.com'' ''y'' (seeded_store ''x''))) =
     (Error 403 ''Permission denied: delete on Users'',
      snd (post_register ''bob'' ''bob@example.com'' ''y'' (seeded_store ''x''))) \<and>
   fst (route_delete_users_id 2 (Some 2)
          (snd (post_register ''bob'' ''bob@example.com'' ''y'' (seeded_store ''x'')))) \<noteq>
     Error 400 ''Cannot delete your own account''"
proof -
  let ?db = "snd (post_register ''bob'' ''bob@example.com'' ''y'' (seeded_store ''x''))"
  have ids: "map u_id (users ?db) = [1, 2]" by code_simp
  have no: "\<not> has_path ?db 2 ''Users'' ''delete''" by code_simp
  have "route_delete_users_id 2 (Some 2) ?db = (Error 403 ''Permission denied: delete on Users'', ?db)"
    using no by (simp add: route_delete_users_id_def checkPermission_def permission_count_zero)
  then show ?thesis by (simp add: ids)
qed

section \<open>Deleting entities and the rows that reference them\<close>

text \<open>
  With foreign keys enforced, the schema's \<open>ON DELETE CASCADE\<close> removes the rows that
  reference a deleted module: its permissions, and the \<open>role_permissions\<close> rows of those
  permissions.
\<close>

lemma delete_module_row_enforced:
  assumes "foreign_keys db"
  shows "(\<forall>p \<in> set (permissions (delete_module_row mid db)). module_id p \<noteq> mid) \<and>
         (\<forall>rp \<in> set (role_permissions (delete_module_row mid db)).
            rp_permission_id rp \<notin> p_id ` {p \<in> set (permissions db). module_id p = mid})"
  using assms by (auto simp: delete_module_row_def delete_permission_rows_def Let_def)

text \<open>
  Without enforcement the statement removes the one row it names and nothing else.
\<close>

lemma delete_module_row_not_enforced:
  assumes "\<not> foreign_keys db"
  shows "delete_module_row mid db = db\<lparr>modules := filter (\<lambda>m. m_id m \<noteq> mid) (modules db)\<rparr>"
  using assms by (simp add: delete_module_row_def Let_def)

text \<open>
  Whatever the setting, the resolver denies every action on the name of a deleted module,
  since its join ends in the modules table and module names are unique.
\<close>

lemma has_path_module: "has_path db U M A \<Longrightarrow> M \<in> set (map m_name (modules db))"
  by (auto simp: has_path_def)

lemma modules_delete_module_row:
  "modules (delete_module_row mid db) = filter (\<lambda>m. m_id m \<noteq> mid) (modules db)"
  by (simp add: delete_module_row_def delete_permission_rows_def Let_def)

lemma no_path_after_module_delete:
  assumes "wf_db db" and "m \<in> set (modules db)"
  shows "\<not> has_path (snd (delete_modules_id (m_id m) db)) U (m_name m) A"
proof
  assume "has_path (snd (delete_modules_id (m_id m) db)) U (m_name m) A"
  then have "m_name m \<in> set (map m_name (modules (snd (delete_modules_id (m_id m) db))))"
    by (rule has_path_module)
  then have "m_name m \<in> set (map m_name (filter (\<lambda>m'. m_id m' \<noteq> m_id m) (modules db)))"
    using assms(2) by (simp add: delete_modules_id_def modules_delete_module_row)
  then obtain m' where m': "m' \<in> set (modules db)" "m_id m' \<noteq> m_id m" "m_name m' = m_name m"
    by auto
  have "distinct (map m_name (modules db))" using assms(1) by (simp add: wf_db_def)
  then have "inj_on m_name (set (modules db))" by (simp add: distinct_map)
  then have "m' = m" using m' assms(2) by (auto dest: inj_onD)
  then show False using m'(2) by simp
qed

text \<open>
  C2, at the store the program starts with. \<open>DELETE /modules/1\<close> answers with success and
  removes the module Users, but its four permission rows (the ids 17 to 20: the seed
  numbered the permissions in the order of the modules' names) and the twenty
  \<open>role_permissions\<close> rows stay; \<open>DELETE /roles/1\<close> leaves the \<open>group_roles\<close> and
  \<open>role_permissions\<close> rows of the role; \<open>DELETE /groups/1\<close> leaves its \<open>user_groups\<close> and
  \<open>group_roles\<close> rows; \<open>DELETE /permissions/1\<close> leaves the \<open>role_permissions\<close> row of the
  permission; and once a second user has registered and been put into the group,
  \<open>DELETE /users/2\<close> leaves that user's \<open>user_groups\<close> row. The connection was
  opened without \<open>PRAGMA foreign_keys = ON\<close>, so no cascade runs.
\<close>

theorem delete_leaves_referencing_rows:
  "foreign_keys (snd (initializeDatabase ''x'')) = False \<and>
   fst (delete_modules_id 1 (snd (initializeDatabase ''x''))) = Message ''Module deleted successfully'' \<and>
   map m_id (modules (snd (delete_modules_id 1 (snd (initializeDatabase ''x''))))) = [2, 3, 4, 5] \<and>
   map (\<lambda>p. (p_id p, action p))
     (filter (\<lambda>p. module_id p = 1) (permissions (snd (delete_modules_id 1 (snd (initializeDatabase ''x'')))))) =
     [(17, ''create''), (18, ''read''), (19, ''update''), (20, ''delete'')] \<and>
   role_permissions (snd (delete_modules_id 1 (snd (initializeDatabase ''x'')))) =
     role_permissions (snd (initializeDatabase ''x'')) \<and>
   fst (delete_roles_id 1 (snd (initializeDatabase ''x''))) = Message ''Role deleted successfully'' \<and>
   roles (snd (delete_roles_id 1 (snd (initializeDatabase ''x'')))) = [] \<and>
   map gr_role_id (group_roles (snd (delete_roles_id 1 (snd (initializeDatabase ''x''))))) = [1] \<and>
   length (filter (\<lambda>rp. rp_role_id rp = 1)
     (role_permissions (snd (delete_roles_id 1 (snd (initializeDatabase ''x'')))))) = 20 \<and>
   fst (delete_groups_id 1 (snd (initializeDatabase ''x''))) = Message ''Group deleted successfully'' \<and>
   groups (snd (delete_groups_id 1 (snd (initializeDatabase ''x'')))) = [] \<and>
   map ug_group_id (user_groups (snd (delete_groups_id 1 (snd (initializeDatabase ''x''))))) = [1] \<and>
   map gr_group_id (group_roles (snd (delete_groups_id 1 (snd (initializeDatabase ''x''))))) = [1] \<and>
   fst (delete_permissions_id 1 (snd (initializeDatabase ''x''))) = Message ''Permission deleted successfully'' \<and>
   1 \<notin> set (map p_id (permissions (snd (delete_permissions_id 1 (snd (initializeDatabase ''x'')))))) \<and>
   1 \<in> set (map rp_permission_id
     (role_permissions (snd (delete_permissions_id 1 (snd (initializeDatabase ''x'')))))) \<and>
   fst (delete_users_id 1 2
     (snd (post_groups_id_users 1 [2]
       (snd (post_register ''bob'' ''bob@example.com'' ''y'' (snd (initializeDatabase ''x''))))))) =
     Message ''User deleted successfully'' \<and>
   map u_id (users (snd (delete_users_id 1 2
     (snd (post_groups_id_users 1 [2]
       (snd (post_register ''bob'' ''bob@example.com'' ''y'' (snd (initializeDatabase ''x'')))))))))= [1] \<and>
   map ug_user_id (user_groups (snd (delete_users_id 1 2
     (snd (post_groups_id_users 1 [2]
       (snd (post_register ''bob'' ''bob@example.com'' ''y'' (snd (initializeDatabase ''x'')))))))))= [1, 2]"
  unfolding initializeDatabase_seeded snd_conv
  by code_simp

section \<open>The permission map\<close>

lemma set_insert_row: "set (insert_row r rs) = insert r (set rs)"
  by (induction rs) auto

lemma set_order_rows: "set (order_rows rs) = set rs"
  unfolding order_rows_def by (induction rs) (simp_all add: set_insert_row)

lemma joined_row_iff_path:
  "(M, A) \<in> set [(m_name m, action p).
          ug \<leftarrow> user_groups db,
          gr \<leftarrow> group_roles db, ug_group_id ug = gr_group_id gr,
          rp \<leftarrow> role_permissions db, gr_role_id gr = rp_role_id rp,
          p \<leftarrow> permissions db, rp_permission_id rp = p_id p,
          m \<leftarrow> modules db, module_id p = m_id m,
          ug_user_id ug = U] \<longleftrightarrow> has_path db U M A"
  unfolding has_path_def by simp blast

lemma user_grants_path: "(M, A) \<in> user_grants db U \<Longrightarrow> has_path db U M A"
  unfolding has_path_def user_grants_def groups_of_def roles_of_def permissions_of_def
  by clarsimp metis

lemma path_user_grants: "has_path db U M A \<Longrightarrow> (M, A) \<in> user_grants db U"
  unfolding has_path_def user_grants_def groups_of_def roles_of_def permissions_of_def
  by clarsimp metis

lemma user_grants_iff_path: "(M, A) \<in> user_grants db U \<longleftrightarrow> has_path db U M A"
  using user_grants_path path_user_grants by blast

lemma set_user_permission_rows: "set (user_permission_rows db U) = user_grants db U"
proof (rule set_eqI)
  fix x :: "string \<times> string"
  obtain M A where x: "x = (M, A)" by (cases x)
  have "x \<in> set (user_permission_rows db U) \<longleftrightarrow> has_path db U M A"
    unfolding x user_permission_rows_def set_order_rows set_remdups
    by (rule joined_row_iff_path)
  then show "x \<in> set (user_permission_rows db U) \<longleftrightarrow> x \<in> user_grants db U"
    by (simp add: x user_grants_iff_path)
qed

text \<open>
  The grouping loop: when no module name among the rows is a property name of
  \<open>Object.prototype\<close>, every module ends with the list of its actions, in the order of
  the rows; a name that is one, met before the object has it as an own property, ends the
  loop with the \<open>TypeError\<close>.
\<close>

lemma group_by_module_ok:
  "fst ` set rows \<inter> set object_prototype_keys = {} \<Longrightarrow>
   group_by_module rows obj =
     Inr (\<lambda>m. case map snd (filter (\<lambda>r. fst r = m) rows) of
                 [] \<Rightarrow> obj m
               | acts \<Rightarrow> Some ((case obj m of None \<Rightarrow> [] | Some old \<Rightarrow> old) @ acts))"
proof (induction rows arbitrary: obj)
  case Nil
  show ?case by simp
next
  case (Cons r rows)
  obtain k a where r: "r = (k, a)" by (cases r)
  have k: "k \<notin> set object_prototype_keys" using Cons.prems by (auto simp: r)
  have rest: "fst ` set rows \<inter> set object_prototype_keys = {}" using Cons.prems by auto
  show ?case
  proof (cases "obj k")
    case None
    have "group_by_module (r # rows) obj = group_by_module rows (obj(k \<mapsto> [a]))"
      using None k by (simp add: r)
    also have "\<dots> = Inr (\<lambda>m. case map snd (filter (\<lambda>r. fst r = m) rows) of
                 [] \<Rightarrow> (obj(k \<mapsto> [a])) m
               | acts \<Rightarrow> Some ((case (obj(k \<mapsto> [a])) m of None \<Rightarrow> [] | Some old \<Rightarrow> old) @ acts))"
      by (rule Cons.IH [OF rest])
    also have "\<dots> = Inr (\<lambda>m. case map snd (filter (\<lambda>r. fst r = m) (r # rows)) of
                 [] \<Rightarrow> obj m
               | acts \<Rightarrow> Some ((case obj m of None \<Rightarrow> [] | Some old \<Rightarrow> old) @ acts))"
      using None by (auto simp: r fun_eq_iff split: list.splits option.splits)
    finally show ?thesis .
  next
    case (Some old)
    have "group_by_module (r # rows) obj = group_by_module rows (obj(k \<mapsto> old @ [a]))"
      using Some by (simp add: r)
    also have "\<dots> = Inr (\<lambda>m. case map snd (filter (\<lambda>r. fst r = m) rows) of
                 [] \<Rightarrow> (obj(k \<mapsto> old @ [a])) m
               | acts \<Rightarrow> Some ((case (obj(k \<mapsto> old @ [a])) m of None \<Rightarrow> [] | Some old \<Rightarrow> old) @ acts))"
      by (rule Cons.IH [OF rest])
    also have "\<dots> = Inr (\<lambda>m. case map snd (filter (\<lambda>r. fst r = m) (r # rows)) of
                 [] \<Rightarrow> obj m
               | acts \<Rightarrow> Some ((case obj m of None \<Rightarrow> [] | Some old \<Rightarrow> old) @ acts))"
      using Some by (auto simp: r fun_eq_iff split: list.splits option.splits)
    finally show ?thesis .
  qed
qed

lemma group_by_module_error:
  "(m, a) \<in> set rows \<Longrightarrow> m \<in> set object_prototype_keys \<Longrightarrow> obj m = None \<Longrightarrow>
   group_by_module rows obj = Inl TypeError"
proof (induction rows arbitrary: obj)
  case Nil
  then show ?case by simp
next
  case (Cons r rows)
  obtain k b where r: "r = (k, b)" by (cases r)
  show ?case
  proof (cases "k = m")
    case True
    then show ?thesis using Cons.prems by (simp add: r)
  next
    case False
    then have in_rest: "(m, a) \<in> set rows" using Cons.prems(1) by (simp add: r)
    have "group_by_module rows (obj(k \<mapsto> v)) = Inl TypeError" for v
      using False Cons.prems(2,3) by (intro Cons.IH [OF in_rest]) simp_all
    then show ?thesis by (simp add: r split: option.split)
  qed
qed

text \<open>
  What \<open>getUserPermissions\<close> returns, in full: the grants grouped by module exactly
  when no granted module is named like a property of \<open>Object.prototype\<close>, and the
  \<open>TypeError\<close> otherwise; for a user without grants the empty object.
\<close>

lemma getUserPermissions_grants:
  assumes "fst ` user_grants db U \<inter> set object_prototype_keys = {}"
  shows "\<exists>f. getUserPermissions db U = Inr f \<and> dom f = fst ` user_grants db U \<and>
             (\<forall>m acts. f m = Some acts \<longrightarrow> set acts = {a. (m, a) \<in> user_grants db U})"
proof -
  let ?rows = "user_permission_rows db U"
  let ?f = "\<lambda>m. case map snd (filter (\<lambda>r. fst r = m) ?rows) of
                 [] \<Rightarrow> Map.empty m
               | acts \<Rightarrow> Some ((case Map.empty m of None \<Rightarrow> [] | Some old \<Rightarrow> old) @ acts)"
  have s: "set ?rows = user_grants db U" by (rule set_user_permission_rows)
  have "fst ` set ?rows \<inter> set object_prototype_keys = {}" using assms by (simp only: s)
  then have r: "getUserPermissions db U = Inr ?f"
    unfolding getUserPermissions_def by (rule group_by_module_ok)
  have acts: "set (map snd (filter (\<lambda>r. fst r = m) ?rows)) = {a. (m, a) \<in> user_grants db U}" for m
    unfolding s [symmetric] by force
  have d: "dom ?f = fst ` user_grants db U"
  proof (rule set_eqI)
    fix m
    have "m \<in> dom ?f \<longleftrightarrow> map snd (filter (\<lambda>r. fst r = m) ?rows) \<noteq> []"
      by (auto simp: dom_def split: list.splits)
    also have "\<dots> \<longleftrightarrow> set (map snd (filter (\<lambda>r. fst r = m) ?rows)) \<noteq> {}"
      by (simp only: set_empty)
    also have "\<dots> \<longleftrightarrow> m \<in> fst ` user_grants db U"
      unfolding acts by force
    finally show "m \<in> dom ?f \<longleftrightarrow> m \<in> fst ` user_grants db U" .
  qed
  have v: "\<forall>m as. ?f m = Some as \<longrightarrow> set as = {a. (m, a) \<in> user_grants db U}"
  proof (intro allI impI)
    fix m as
    assume "?f m = Some as"
    then have "as = map snd (filter (\<lambda>r. fst r = m) ?rows)"
      by (auto split: list.splits)
    then show "set as = {a. (m, a) \<in> user_grants db U}" by (simp only: acts)
  qed
  show ?thesis using r d v by blast
qed

lemma getUserPermissions_type_error:
  assumes "(m, a) \<in> user_grants db U" and "m \<in> set object_prototype_keys"
  shows "getUserPermissions db U = Inl TypeError"
proof -
  have "(m, a) \<in> set (user_permission_rows db U)"
    using assms(1) by (simp only: set_user_permission_rows)
  then show ?thesis
    unfolding getUserPermissions_def using assms(2) by (rule group_by_module_error) simp
qed

lemma getUserPermissions_no_grants:
  assumes "user_grants db U = {}"
  shows "getUserPermissions db U = Inr Map.empty"
proof -
  have "set (user_permission_rows db U) = {}" using assms by (simp only: set_user_permission_rows)
  then have "user_permission_rows db U = []" by simp
  then show ?thesis by (simp add: getUserPermissions_def)
qed

lemma no_groups_no_grants: "\<forall>ug \<in> set (user_groups db). ug_user_id ug \<noteq> U \<Longrightarrow> user_grants db U = {}"
  by (auto simp: user_grants_def groups_of_def)

text \<open>
  C3, at a store the routes produce from the seed. \<open>POST /modules\<close> creates a module
  named \<open>constructor\<close> (the schema asks only for 3 to 100 characters), and \<open>POST
  /roles/1/permissions\<close> gives its read permission to the Admin role. The admin user
  then holds read on \<open>constructor\<close>, as the resolver confirms, but \<open>getUserPermissions\<close>
  returns no mapping for that user: the grouping loop throws.
\<close>

theorem permission_map_type_error:
  "fst (post_modules ''constructor'' None (snd (initializeDatabase ''x''))) =
     Created 6 ''Module created successfully with default permissions'' \<and>
   fst (post_roles_id_permissions 1 [22]
          (snd (post_modules ''constructor'' None (snd (initializeDatabase ''x''))))) =
     Message ''Permissions assigned to role successfully'' \<and>
   has_path
     (snd (post_roles_id_permissions 1 [22]
        (snd (post_modules ''constructor'' None (snd (initializeDatabase ''x''))))))
     1 ''constructor'' ''read'' \<and>
   getUserPermissions
     (snd (post_roles_id_permissions 1 [22]
        (snd (post_modules ''constructor'' None (snd (initializeDatabase ''x''))))))
     1 = Inl TypeError"
proof -
  let ?db = "snd (post_roles_id_permissions 1 [22]
        (snd (post_modules ''constructor'' None (seeded_store ''x''))))"
  have c: "fst (post_modules ''constructor'' None (seeded_store ''x'')) =
     Created 6 ''Module created successfully with default permissions''"
    by code_simp
  have a: "fst (post_roles_id_permissions 1 [22]
          (snd (post_modules ''constructor'' None (seeded_store ''x'')))) =
     Message ''Permissions assigned to role successfully''"
    by code_simp
  have p: "has_path ?db 1 ''constructor'' ''read''" by code_simp
  then have "(''constructor'', ''read'') \<in> user_grants ?db 1" by (rule path_user_grants)
  then have e: "getUserPermissions ?db 1 = Inl TypeError"
    by (rule getUserPermissions_type_error) (simp add: object_prototype_keys_def)
  show ?thesis
    unfolding initializeDatabase_seeded snd_conv using c a p e by (intro conjI)
qed

end
